theory Spec2Isabelle
  imports Complex_Main
begin

section \<open>Exceptions and results\<close>

text \<open>
  The Python exceptions the modelled code can raise. A computation that can raise
  returns \<open>error + 'a\<close>, with \<open>Inl\<close> for the exception.
\<close>

datatype error = AttributeError | IndexError | RuntimeError | ValueError | TypeError

definition is_ok :: "error + 'a \<Rightarrow> bool" where
  "is_ok r = (case r of Inl e \<Rightarrow> False | Inr x \<Rightarrow> True)"

definition bindE :: "error + 'a \<Rightarrow> ('a \<Rightarrow> error + 'b) \<Rightarrow> error + 'b" where
  "bindE r f = (case r of Inl e \<Rightarrow> Inl e | Inr x \<Rightarrow> f x)"

section \<open>Sparse matrices in coordinate form\<close>

text \<open>
  The constructor arguments \<open>train_data\<close> and \<open>test_data\<close> are sparse matrices; the
  code reads their coordinate form: the parallel arrays \<open>row\<close>, \<open>col\<close>, \<open>data\<close>, the
  declared \<open>shape\<close> and the count \<open>nnz\<close> of stored entries. Matrix values and all
  tensor elements are modelled as real numbers; the casts \<open>astype\<close> are the identity
  in this model.
\<close>

record coo_matrix =
  row :: "int list"
  col :: "int list"
  data :: "real list"
  shape :: "nat \<times> nat"

definition nnz :: "coo_matrix \<Rightarrow> nat" where
  "nnz m = length (data m)"

text \<open>
  A sparse matrix keeps its three arrays at one length and its coordinates inside the
  declared shape.
\<close>

definition coo_valid :: "coo_matrix \<Rightarrow> bool" where
  "coo_valid m \<longleftrightarrow>
     length (row m) = length (data m) \<and> length (col m) = length (data m) \<and>
     list_all (\<lambda>r. 0 \<le> r \<and> r < int (fst (shape m))) (row m) \<and>
     list_all (\<lambda>c. 0 \<le> c \<and> c < int (snd (shape m))) (col m)"

text \<open>
  \<open>m.tocoo()\<close>: the coordinate form of a sparse matrix; on \<open>None\<close> the attribute
  lookup raises \<open>AttributeError\<close>.
\<close>

definition tocoo :: "coo_matrix option \<Rightarrow> error + coo_matrix" where
  "tocoo m = (case m of None \<Rightarrow> Inl AttributeError | Some c \<Rightarrow> Inr c)"

section \<open>Interactions\<close>

record Interactions =
  train :: bool
  train_data :: coo_matrix
  test_data :: coo_matrix
  n_users :: nat
  n_items :: nat
  train_row :: "int list"
  train_col :: "int list"
  train_val :: "real list"
  test_row :: "int list"
  test_col :: "int list"
  test_val :: "real list"

text \<open>
  \<open>Interactions.__init__(self, train_data, test_data=None, train=True)\<close>. The second
  statement of the body calls \<open>test_data.tocoo()\<close> whatever \<open>test_data\<close> is.
\<close>

definition Interactions_init ::
  "coo_matrix \<Rightarrow> coo_matrix option \<Rightarrow> bool \<Rightarrow> error + Interactions" where
  "Interactions_init trn tst flag =
     bindE (tocoo (Some trn)) (\<lambda>trn_coo.
     bindE (tocoo tst) (\<lambda>tst_coo.
       Inr \<lparr> train = flag,
             train_data = trn_coo,
             test_data = tst_coo,
             n_users = fst (shape trn_coo),
             n_items = snd (shape trn_coo),
             train_row = row trn_coo,
             train_col = col trn_coo,
             train_val = data trn_coo,
             test_row = row tst_coo,
             test_col = col tst_coo,
             test_val = data tst_coo \<rparr>))"

text \<open>
  Indexing a one-dimensional tensor with a Python integer: an index below zero counts
  from the end, and an index outside \<open>[-n, n)\<close> raises \<open>IndexError\<close>.
\<close>

definition tensor_index :: "'a list \<Rightarrow> int \<Rightarrow> error + 'a" where
  "tensor_index t i =
     (if 0 \<le> i \<and> i < int (length t) then Inr (t ! nat i)
      else if - int (length t) \<le> i \<and> i < 0 then Inr (t ! nat (int (length t) + i))
      else Inl IndexError)"

text \<open>\<open>Interactions.__getitem__\<close> returns \<open>(row, col), val\<close>.\<close>

definition getitem :: "Interactions \<Rightarrow> int \<Rightarrow> error + ((int \<times> int) \<times> real)" where
  "getitem self index =
     (if train self then
        bindE (tensor_index (train_row self) index) (\<lambda>r.
        bindE (tensor_index (train_col self) index) (\<lambda>c.
        bindE (tensor_index (train_val self) index) (\<lambda>v.
          Inr ((r, c), v))))
      else
        bindE (tensor_index (test_row self) index) (\<lambda>r.
        bindE (tensor_index (test_col self) index) (\<lambda>c.
        bindE (tensor_index (test_val self) index) (\<lambda>v.
          Inr ((r, c), v)))))"

text \<open>\<open>Interactions.__len__\<close>.\<close>

definition len :: "Interactions \<Rightarrow> nat" where
  "len self = (if train self then nnz (train_data self) else nnz (test_data self))"

text \<open>
  The example data of the specification: three users, two items and the entries
  \<open>(0,0): 5\<close>, \<open>(1,1): 3\<close>, \<open>(2,0): 1\<close>; and a matrix of another shape.
\<close>

definition example_train :: coo_matrix where
  "example_train = \<lparr> row = [0, 1, 2], col = [0, 1, 0], data = [5, 3, 1], shape = (3, 2) \<rparr>"

definition example_test :: coo_matrix where
  "example_test = \<lparr> row = [1, 2], col = [0, 1], data = [4, 2], shape = (3, 2) \<rparr>"

definition example_wide :: coo_matrix where
  "example_wide = \<lparr> row = [4], col = [6], data = [2], shape = (5, 7) \<rparr>"

section \<open>The tensor library\<close>

text \<open>
  The code computes with library tensors. A one-dimensional tensor is a list, a
  two-dimensional tensor a list of rows. An elementwise operation needs operands of one
  shape and raises \<open>RuntimeError\<close> otherwise.
\<close>

definition tensor_op :: "(real \<Rightarrow> real \<Rightarrow> real) \<Rightarrow> real list \<Rightarrow> real list \<Rightarrow> error + real list" where
  "tensor_op f x y =
     (if length x = length y then Inr (map2 f x y) else Inl RuntimeError)"

definition tensor_op2 ::
  "(real \<Rightarrow> real \<Rightarrow> real) \<Rightarrow> real list list \<Rightarrow> real list list \<Rightarrow> error + real list list" where
  "tensor_op2 f x y =
     (if map length x = map length y then Inr (map2 (map2 f) x y) else Inl RuntimeError)"

text \<open>\<open>t.sum(1)\<close> sums each row; the dot product of two rows is the sum of their products.\<close>

definition sum1 :: "real list list \<Rightarrow> real list" where
  "sum1 t = map sum_list t"

definition dot :: "real list \<Rightarrow> real list \<Rightarrow> real" where
  "dot x y = sum_list (map2 (*) x y)"

text \<open>
  An embedding table called on a tensor of indices returns the rows at these indices and
  raises \<open>IndexError\<close> when an index is outside \<open>[0, n)\<close>. A table with rows of one
  element (the biases) is modelled as a list of scalars.
\<close>

definition embedding :: "'a list \<Rightarrow> int list \<Rightarrow> error + 'a list" where
  "embedding weight idx =
     (if list_all (\<lambda>i. 0 \<le> i \<and> i < int (length weight)) idx
      then Inr (map (\<lambda>i. weight ! nat i) idx) else Inl IndexError)"

text \<open>
  What the code consumes from its collaborators, as a record of functions: the process-wide
  random generator (its state has type \<open>'g\<close>; each draw returns the value and the next
  state), the loss function, and the optimizer (its state has type \<open>'o\<close>).
  \<open>optimizer_step\<close> stands for \<open>zero_grad\<close>, \<open>backward\<close> and \<open>step\<close> together: given
  the optimizer, the module, the batch and the generator state the forward pass started
  from, it returns the optimizer and the four parameter tensors after the update.
\<close>

type_synonym parameters = "real list \<times> real list \<times> real list list \<times> real list list"

record BaseModule =
  n_users :: nat
  n_items :: nat
  user_biases :: "real list"
  item_biases :: "real list"
  user_embeddings :: "real list list"
  item_embeddings :: "real list list"
  dropout_p :: real
  training :: bool

record ('g, 'o) torch =
  manual_seed :: "int \<Rightarrow> 'g"
  normal :: "'g \<Rightarrow> real \<times> 'g"
  bernoulli :: "real \<Rightarrow> 'g \<Rightarrow> bool \<times> 'g"
  randperm :: "nat \<Rightarrow> 'g \<Rightarrow> nat list \<times> 'g"
  loss_function :: "real list \<Rightarrow> real list \<Rightarrow> real"
  optimizer_init :: "real \<Rightarrow> real \<Rightarrow> parameters \<Rightarrow> 'o"
  optimizer_step ::
    "'o \<Rightarrow> BaseModule \<Rightarrow> int list \<times> int list \<times> real list \<Rightarrow> 'g \<Rightarrow> 'o \<times> parameters"

section \<open>Programs with state and exceptions\<close>

text \<open>
  A program runs on a state and returns its result or the exception it raised, with the
  state it left behind: an exception does not undo the updates made before it.
\<close>

type_synonym ('s, 'a) prog = "'s \<Rightarrow> (error + 'a) \<times> 's"

definition ret :: "'a \<Rightarrow> ('s, 'a) prog" where
  "ret x = (\<lambda>s. (Inr x, s))"

definition raise :: "error \<Rightarrow> ('s, 'a) prog" where
  "raise e = (\<lambda>s. (Inl e, s))"

definition lift :: "error + 'a \<Rightarrow> ('s, 'a) prog" where
  "lift r = (\<lambda>s. (r, s))"

definition draw :: "('s \<Rightarrow> 'a \<times> 's) \<Rightarrow> ('s, 'a) prog" where
  "draw f = (\<lambda>s. case f s of (x, s') \<Rightarrow> (Inr x, s'))"

definition bindP :: "('s, 'a) prog \<Rightarrow> ('a \<Rightarrow> ('s, 'b) prog) \<Rightarrow> ('s, 'b) prog" where
  "bindP m f = (\<lambda>s. case m s of (Inl e, s') \<Rightarrow> (Inl e, s') | (Inr x, s') \<Rightarrow> f x s')"

fun for_each :: "'a list \<Rightarrow> ('a \<Rightarrow> ('s, unit) prog) \<Rightarrow> ('s, unit) prog" where
  "for_each [] body = ret ()"
| "for_each (x # xs) body = bindP (body x) (\<lambda>_. for_each xs body)"

text \<open>\<open>draws f n\<close> makes \<open>n\<close> draws in a row.\<close>

fun draws :: "('g \<Rightarrow> 'a \<times> 'g) \<Rightarrow> nat \<Rightarrow> 'g \<Rightarrow> 'a list \<times> 'g" where
  "draws f 0 g = ([], g)"
| "draws f (Suc n) g =
     (case f g of (x, g1) \<Rightarrow> (case draws f n g1 of (xs, g2) \<Rightarrow> (x # xs, g2)))"

section \<open>Dropout\<close>

text \<open>
  The library's dropout layer. In training mode with \<open>0 < p\<close> it draws one keep flag per
  element with probability \<open>1 - p\<close>, scales the flags by \<open>1 / (1 - p)\<close>, sets the whole
  noise tensor to zero when \<open>p = 1\<close>, and multiplies the input by the noise. Otherwise it
  returns its input and draws nothing.
\<close>

fun noise_like :: "('g \<Rightarrow> bool \<times> 'g) \<Rightarrow> real list list \<Rightarrow> 'g \<Rightarrow> bool list list \<times> 'g" where
  "noise_like f [] g = ([], g)"
| "noise_like f (r # rs) g =
     (case draws f (length r) g of (n, g1) \<Rightarrow>
        (case noise_like f rs g1 of (ns, g2) \<Rightarrow> (n # ns, g2)))"

definition dropout_noise :: "real \<Rightarrow> bool \<Rightarrow> real" where
  "dropout_noise p keep = (if p = 1 then 0 else (if keep then 1 else 0) / (1 - p))"

definition dropout_row :: "real \<Rightarrow> bool \<Rightarrow> bool list \<Rightarrow> real list \<Rightarrow> real list" where
  "dropout_row p mode noise x =
     (if 0 < p \<and> mode then map2 (\<lambda>v keep. v * dropout_noise p keep) x noise else x)"

definition dropout ::
  "('g, 'o) torch \<Rightarrow> real \<Rightarrow> bool \<Rightarrow> real list list \<Rightarrow> 'g \<Rightarrow> real list list \<times> 'g" where
  "dropout L p mode x g =
     (if 0 < p \<and> mode then
        (case noise_like (bernoulli L (1 - p)) x g of
           (noise, g') \<Rightarrow> (map2 (dropout_row p mode) noise x, g'))
      else (x, g))"

section \<open>BaseModule and BPRModule\<close>

text \<open>
  \<open>BaseModule.__init__\<close>: the four embedding tables are filled with normal draws, in the
  order of the source; the dropout layer then refuses a probability outside \<open>[0, 1]\<close>. A
  module starts in training mode.
\<close>

definition BaseModule_init ::
  "('g, 'o) torch \<Rightarrow> nat \<Rightarrow> nat \<Rightarrow> nat \<Rightarrow> real \<Rightarrow> ('g, BaseModule) prog" where
  "BaseModule_init L nu ni nf p =
     bindP (draw (draws (normal L) nu)) (\<lambda>ub.
     bindP (draw (draws (normal L) ni)) (\<lambda>ib.
     bindP (draw (draws (draws (normal L) nf) nu)) (\<lambda>ue.
     bindP (draw (draws (draws (normal L) nf) ni)) (\<lambda>ie.
     bindP (if p < 0 \<or> 1 < p then raise ValueError else ret ()) (\<lambda>_.
       ret \<lparr> n_users = nu, n_items = ni,
             user_biases = ub, item_biases = ib,
             user_embeddings = ue, item_embeddings = ie,
             dropout_p = p, training = True \<rparr>)))))"

definition parameters :: "BaseModule \<Rightarrow> parameters" where
  "parameters m = (user_biases m, item_biases m, user_embeddings m, item_embeddings m)"

definition set_parameters :: "BaseModule \<Rightarrow> parameters \<Rightarrow> BaseModule" where
  "set_parameters m \<theta> =
     (case \<theta> of (ub, ib, ue, ie) \<Rightarrow>
        m\<lparr> user_biases := ub, item_biases := ib,
           user_embeddings := ue, item_embeddings := ie \<rparr>)"

text \<open>
  The tables of a module are tensors of the sizes fixed at construction: \<open>n_users\<close> and
  \<open>n_items\<close> rows, all factor rows of one length; its dropout probability is one the
  dropout layer accepts.
\<close>

definition module_wf :: "BaseModule \<Rightarrow> bool" where
  "module_wf m \<longleftrightarrow>
     length (user_biases m) = BaseModule.n_users m \<and>
     length (item_biases m) = BaseModule.n_items m \<and>
     length (user_embeddings m) = BaseModule.n_users m \<and>
     length (item_embeddings m) = BaseModule.n_items m \<and>
     (\<exists>nf. list_all (\<lambda>r. length r = nf) (user_embeddings m) \<and>
           list_all (\<lambda>r. length r = nf) (item_embeddings m)) \<and>
     0 \<le> BaseModule.dropout_p m \<and> BaseModule.dropout_p m \<le> 1"

text \<open>
  \<open>BaseModule.forward(self, users, items)\<close>. In the library version the code is written
  for, \<open>sum(1)\<close> keeps the summed dimension, so the biases and the summed products are
  columns of one shape; the model has one scalar per row for both.
\<close>

definition forward ::
  "('g, 'o) torch \<Rightarrow> BaseModule \<Rightarrow> int list \<Rightarrow> int list \<Rightarrow> ('g, real list) prog" where
  "forward L self users items =
     bindP (lift (embedding (user_embeddings self) users)) (\<lambda>ues.
     bindP (lift (embedding (item_embeddings self) items)) (\<lambda>uis.
     bindP (lift (embedding (user_biases self) users)) (\<lambda>ub.
     bindP (lift (embedding (item_biases self) items)) (\<lambda>ib.
     bindP (lift (tensor_op (+) ub ib)) (\<lambda>preds.
     bindP (draw (dropout L (dropout_p self) (training self) ues)) (\<lambda>du.
     bindP (draw (dropout L (dropout_p self) (training self) uis)) (\<lambda>di.
     bindP (lift (tensor_op2 (*) du di)) (\<lambda>prod.
       lift (tensor_op (+) preds (sum1 prod))))))))))"

text \<open>
  \<open>BPRModule.forward(self, users, pos_items, neg_items)\<close>. A \<open>BPRModule\<close> has the
  attributes of a \<open>BaseModule\<close> and no other.
\<close>

definition BPR_forward ::
  "('g, 'o) torch \<Rightarrow> BaseModule \<Rightarrow> int list \<Rightarrow> int list \<Rightarrow> int list \<Rightarrow> ('g, real list) prog" where
  "BPR_forward L self users pos_items neg_items =
     bindP (lift (embedding (user_embeddings self) users)) (\<lambda>ues.
     bindP (lift (embedding (item_embeddings self) pos_items)) (\<lambda>pe.
     bindP (lift (embedding (item_embeddings self) neg_items)) (\<lambda>ne.
     bindP (lift (tensor_op2 (-) pe ne)) (\<lambda>uis.
     bindP (draw (dropout L (dropout_p self) (training self) ues)) (\<lambda>du.
     bindP (draw (dropout L (dropout_p self) (training self) uis)) (\<lambda>di.
     bindP (lift (tensor_op2 (*) du di)) (\<lambda>prod.
     bindP (lift (embedding (user_biases self) users)) (\<lambda>ub.
     bindP (lift (tensor_op (+) (sum1 prod) ub)) (\<lambda>preds.
     bindP (lift (embedding (item_biases self) pos_items)) (\<lambda>pb.
     bindP (lift (embedding (item_biases self) neg_items)) (\<lambda>nb.
     bindP (lift (tensor_op (-) pb nb)) (\<lambda>d.
       lift (tensor_op (+) preds d)))))))))))))"

section \<open>Data loaders\<close>

text \<open>
  \<open>DataLoader(dataset, batch_size=1024, shuffle=True)\<close>. Starting an iteration asks the
  random sampler for a permutation of the indices below the length of the dataset; the
  indices are cut into batches of \<open>batch_size\<close>. Each batch is fetched when the loop
  reaches it, item by item through \<open>__getitem__\<close>, and collated into the three tensors
  \<open>row\<close>, \<open>col\<close>, \<open>val\<close>.
\<close>

record DataLoader =
  dataset :: Interactions
  batch_size :: nat
  shuffle :: bool

function chunks :: "nat \<Rightarrow> 'a list \<Rightarrow> 'a list list" where
  "chunks n xs = (if n = 0 \<or> xs = [] then [] else take n xs # chunks n (drop n xs))"
  by pat_completeness auto
termination
  by (relation "measure (\<lambda>(n, xs). length xs)") auto

definition batches_of :: "('g, 'o) torch \<Rightarrow> DataLoader \<Rightarrow> ('g, int list list) prog" where
  "batches_of L dl =
     draw (\<lambda>g.
       case (if shuffle dl then randperm L (len (dataset dl)) g
             else ([0..<len (dataset dl)], g)) of
         (perm, g') \<Rightarrow> (chunks (batch_size dl) (map int perm), g'))"

fun mapE :: "('a \<Rightarrow> error + 'b) \<Rightarrow> 'a list \<Rightarrow> error + 'b list" where
  "mapE f [] = Inr []"
| "mapE f (x # xs) = bindE (f x) (\<lambda>y. bindE (mapE f xs) (\<lambda>ys. Inr (y # ys)))"

definition fetch :: "DataLoader \<Rightarrow> int list \<Rightarrow> error + (int list \<times> int list \<times> real list)" where
  "fetch dl idxs =
     bindE (mapE (getitem (dataset dl)) idxs) (\<lambda>samples.
       Inr (map (\<lambda>s. fst (fst s)) samples, map (\<lambda>s. snd (fst s)) samples, map snd samples))"

section \<open>BasePipeline\<close>

text \<open>
  The entries of the loss history: \<open>losses\<close> is a \<open>defaultdict(list)\<close>, with epoch numbers
  under \<open>'epoch'\<close> and losses under \<open>'train'\<close> and \<open>'test'\<close>. Reading a key that is not
  there stores the empty list under it.
\<close>

datatype entry = Epoch nat | Loss real

definition dd_touch :: "(string \<rightharpoonup> entry list) \<Rightarrow> string \<Rightarrow> (string \<rightharpoonup> entry list)" where
  "dd_touch d k = (case d k of None \<Rightarrow> d(k \<mapsto> []) | Some xs \<Rightarrow> d)"

definition dd_append :: "(string \<rightharpoonup> entry list) \<Rightarrow> string \<Rightarrow> entry \<Rightarrow> (string \<rightharpoonup> entry list)" where
  "dd_append d k v = (case d k of None \<Rightarrow> d(k \<mapsto> [v]) | Some xs \<Rightarrow> d(k \<mapsto> xs @ [v]))"

definition entries :: "(string \<rightharpoonup> entry list) \<Rightarrow> string \<Rightarrow> entry list" where
  "entries d k = (case d k of None \<Rightarrow> [] | Some xs \<Rightarrow> xs)"

text \<open>The classes the argument \<open>model\<close> of the pipeline can name.\<close>

datatype model_class = BaseModule_class | BPRModule_class

text \<open>
  The attributes of a pipeline. \<open>test_interactions\<close> and \<open>test_loader\<close> are assigned
  under \<open>if test_data is not None\<close> only: \<open>None\<close> is here the attribute that was never
  assigned, whose lookup raises \<open>AttributeError\<close>. The loss function and the optimizer's
  code are in the \<open>torch\<close> record; \<open>optimizer\<close> is the optimizer's state. \<open>n_epochs\<close>
  is the number of rounds of the loop over \<open>range(self.n_epochs)\<close>.
\<close>

record 'o BasePipeline =
  train_interactions :: Interactions
  train_loader :: DataLoader
  test_interactions :: "Interactions option"
  test_loader :: "DataLoader option"
  n_users :: nat
  n_items :: nat
  n_factors :: nat
  batch_size :: nat
  dropout_p :: real
  lr :: real
  weight_decay :: real
  n_epochs :: nat
  model :: BaseModule
  optimizer :: 'o
  warm_start :: bool
  losses :: "string \<rightharpoonup> entry list"
  verbose :: bool

text \<open>
  \<open>BasePipeline.__init__\<close>, on the process-wide generator. \<open>BPRModule.__init__\<close> has no
  parameter \<open>loss_function\<close>, so the call \<open>model(..., loss_function=...)\<close> raises
  \<open>TypeError\<close> for that class. The generator is seeded in the last statement.
\<close>

definition BasePipeline_init ::
  "('g, 'o) torch \<Rightarrow> coo_matrix \<Rightarrow> coo_matrix option \<Rightarrow> model_class \<Rightarrow> nat \<Rightarrow> nat \<Rightarrow> real \<Rightarrow>
   real \<Rightarrow> real \<Rightarrow> nat \<Rightarrow> bool \<Rightarrow> int option \<Rightarrow> ('g, 'o BasePipeline) prog" where
  "BasePipeline_init L trn tst cls nf bs p rate wd ne vb random_seed =
     bindP (lift (Interactions_init trn tst True)) (\<lambda>tri.
     bindP (case tst of None \<Rightarrow> ret None
            | Some t \<Rightarrow> bindP (lift (Interactions_init trn tst False)) (\<lambda>tei. ret (Some tei)))
       (\<lambda>tei.
     bindP (case cls of
              BaseModule_class \<Rightarrow> BaseModule_init L (fst (shape trn)) (snd (shape trn)) nf p
            | BPRModule_class \<Rightarrow> raise TypeError) (\<lambda>m.
     bindP (case random_seed of None \<Rightarrow> ret ()
            | Some seed \<Rightarrow> draw (\<lambda>g. ((), manual_seed L seed))) (\<lambda>_.
       ret \<lparr> train_interactions = tri,
             train_loader = \<lparr> dataset = tri, batch_size = 1024, shuffle = True \<rparr>,
             test_interactions = tei,
             test_loader =
               map_option (\<lambda>d. \<lparr> dataset = d, batch_size = 1024, shuffle = True \<rparr>) tei,
             n_users = fst (shape trn),
             n_items = snd (shape trn),
             n_factors = nf,
             batch_size = bs,
             dropout_p = p,
             lr = rate,
             weight_decay = wd,
             n_epochs = ne,
             model = m,
             optimizer = optimizer_init L rate wd (parameters m),
             warm_start = False,
             losses = Map.empty,
             verbose = vb \<rparr>))))"

text \<open>
  The methods run on the pipeline and the generator together. \<open>on_rng\<close> runs a program
  of the generator, \<open>self\<close> reads the pipeline and \<open>update\<close> changes it.
\<close>

definition on_rng :: "('g, 'a) prog \<Rightarrow> ('p \<times> 'g, 'a) prog" where
  "on_rng m = (\<lambda>(p, g). case m g of (r, g') \<Rightarrow> (r, (p, g')))"

definition self :: "('p \<times> 'g, 'p) prog" where
  "self = (\<lambda>(p, g). (Inr p, (p, g)))"

definition update :: "('p \<Rightarrow> 'p) \<Rightarrow> ('p \<times> 'g, unit) prog" where
  "update f = (\<lambda>(p, g). (Inr (), (f p, g)))"

text \<open>
  One iteration of the loop of \<open>_fit_epoch\<close>: fetch the batch, predict, compute the loss,
  let the optimizer update the parameters, and return the loss of the batch.
\<close>

definition train_step :: "('g, 'o) torch \<Rightarrow> int list \<Rightarrow> ('o BasePipeline \<times> 'g, real) prog" where
  "train_step L idxs =
     bindP self (\<lambda>p.
     bindP (lift (fetch (train_loader p) idxs)) (\<lambda>(row, col, val).
     bindP (\<lambda>(p, g).
              case forward L (model p) row col g of
                (Inl e, g') \<Rightarrow> (Inl e, (p, g'))
              | (Inr preds, g') \<Rightarrow>
                  (case optimizer_step L (optimizer p) (model p) (row, col, val) g of
                     (opt, \<theta>) \<Rightarrow>
                       (Inr preds,
                        (p\<lparr> model := set_parameters (model p) \<theta>, optimizer := opt \<rparr>, g'))))
       (\<lambda>preds. ret (loss_function L preds val))))"

fun train_batches ::
  "('g, 'o) torch \<Rightarrow> int list list \<Rightarrow> real \<Rightarrow> ('o BasePipeline \<times> 'g, real) prog" where
  "train_batches L [] total_loss = ret total_loss"
| "train_batches L (b # bs) total_loss =
     bindP (train_step L b) (\<lambda>loss. train_batches L bs (total_loss + loss))"

text \<open>
  \<open>BasePipeline._fit_epoch\<close>. The division by the length of the train split is the
  division of the reals (where the length is zero the tensor division of the code gives
  a value that is not a number, and the model gives zero).
\<close>

definition fit_epoch :: "('g, 'o) torch \<Rightarrow> ('o BasePipeline \<times> 'g, real) prog" where
  "fit_epoch L =
     bindP (update (\<lambda>p. p\<lparr> model := (model p)\<lparr> training := True \<rparr> \<rparr>)) (\<lambda>_.
     bindP self (\<lambda>p.
     bindP (on_rng (batches_of L (train_loader p))) (\<lambda>bs.
     bindP (train_batches L bs 0) (\<lambda>total_loss.
     bindP self (\<lambda>p.
       ret (total_loss / real (len (train_interactions p))))))))"

text \<open>One iteration of the loop of \<open>_validation_loss\<close>.\<close>

definition validation_step ::
  "('g, 'o) torch \<Rightarrow> DataLoader \<Rightarrow> int list \<Rightarrow> ('o BasePipeline \<times> 'g, real) prog" where
  "validation_step L dl idxs =
     bindP (lift (fetch dl idxs)) (\<lambda>(row, col, val).
     bindP self (\<lambda>p.
     bindP (on_rng (forward L (model p) row col)) (\<lambda>preds.
       ret (loss_function L preds val))))"

fun validation_batches ::
  "('g, 'o) torch \<Rightarrow> DataLoader \<Rightarrow> int list list \<Rightarrow> real \<Rightarrow> ('o BasePipeline \<times> 'g, real) prog" where
  "validation_batches L dl [] total_loss = ret total_loss"
| "validation_batches L dl (b # bs) total_loss =
     bindP (validation_step L dl b) (\<lambda>loss. validation_batches L dl bs (total_loss + loss))"

text \<open>\<open>BasePipeline._validation_loss\<close>.\<close>

definition validation_loss :: "('g, 'o) torch \<Rightarrow> ('o BasePipeline \<times> 'g, real) prog" where
  "validation_loss L =
     bindP (update (\<lambda>p. p\<lparr> model := (model p)\<lparr> training := False \<rparr> \<rparr>)) (\<lambda>_.
     bindP self (\<lambda>p.
     bindP (case test_loader p of None \<Rightarrow> raise AttributeError | Some dl \<Rightarrow> ret dl) (\<lambda>dl.
     bindP (on_rng (batches_of L dl)) (\<lambda>bs.
     bindP (validation_batches L dl bs 0) (\<lambda>total_loss.
     bindP self (\<lambda>p.
     bindP (case test_interactions p of None \<Rightarrow> raise AttributeError | Some ti \<Rightarrow> ret ti)
       (\<lambda>ti.
       ret (total_loss / real (len ti)))))))))"

text \<open>
  The body of the loop of \<open>BasePipeline.fit\<close>. In \<open>self.losses[k].append(f())\<close> the list
  is looked up before \<open>f\<close> is called. The condition \<open>self.test_interactions is not None\<close>
  reads the attribute, which is an \<open>Interactions\<close> object when it is there. The progress
  line is built and printed without effect on the state and is left out.
\<close>

definition fit_body :: "('g, 'o) torch \<Rightarrow> nat \<Rightarrow> ('o BasePipeline \<times> 'g, unit) prog" where
  "fit_body L epoch =
     bindP (update (\<lambda>p. p\<lparr> losses := dd_touch (losses p) ''train'' \<rparr>)) (\<lambda>_.
     bindP (fit_epoch L) (\<lambda>l.
     bindP (update (\<lambda>p. p\<lparr> losses := dd_append (losses p) ''train'' (Loss l) \<rparr>)) (\<lambda>_.
     bindP self (\<lambda>p.
     bindP (case test_interactions p of
              None \<Rightarrow> raise AttributeError
            | Some ti \<Rightarrow>
                bindP (update (\<lambda>p. p\<lparr> losses := dd_touch (losses p) ''test'' \<rparr>)) (\<lambda>_.
                bindP (validation_loss L) (\<lambda>l.
                  update (\<lambda>p. p\<lparr> losses := dd_append (losses p) ''test'' (Loss l) \<rparr>))))
       (\<lambda>_.
       update (\<lambda>p. p\<lparr> losses := dd_append (losses p) ''epoch'' (Epoch epoch) \<rparr>))))))"

text \<open>\<open>BasePipeline.fit\<close>.\<close>

definition fit :: "('g, 'o) torch \<Rightarrow> ('o BasePipeline \<times> 'g, unit) prog" where
  "fit L = bindP self (\<lambda>p. for_each [0..<n_epochs p] (fit_body L))"

text \<open>
  Calling \<open>fit\<close> several times in a row, and constructing a pipeline and fitting it:
  both stop at the first exception.
\<close>

fun fit_times :: "('g, 'o) torch \<Rightarrow> nat \<Rightarrow> ('o BasePipeline \<times> 'g, unit) prog" where
  "fit_times L 0 = ret ()"
| "fit_times L (Suc k) = bindP (fit L) (\<lambda>_. fit_times L k)"

definition construct_and_fit ::
  "('g, 'o) torch \<Rightarrow> coo_matrix \<Rightarrow> coo_matrix option \<Rightarrow> model_class \<Rightarrow> nat \<Rightarrow> nat \<Rightarrow> real \<Rightarrow>
   real \<Rightarrow> real \<Rightarrow> nat \<Rightarrow> bool \<Rightarrow> int option \<Rightarrow> ('g, 'o BasePipeline) prog" where
  "construct_and_fit L trn tst cls nf bs p rate wd ne vb random_seed =
     (\<lambda>g. case BasePipeline_init L trn tst cls nf bs p rate wd ne vb random_seed g of
             (Inl e, g1) \<Rightarrow> (Inl e, g1)
           | (Inr q, g1) \<Rightarrow>
               (case fit L (q, g1) of
                  (Inl e, (q', g2)) \<Rightarrow> (Inl e, g2)
                | (Inr u, (q', g2)) \<Rightarrow> (Inr q', g2)))"

section \<open>A small instance of the collaborators\<close>

text \<open>
  For running the model on concrete data: a generator whose state is a counter, the sum
  of squared errors as the loss, and an optimizer that counts its steps and moves every
  user bias by a fixed amount.
\<close>

definition toy_torch :: "(nat, nat) torch" where
  "toy_torch =
     \<lparr> manual_seed = (\<lambda>seed. nat \<bar>seed\<bar>),
       normal = (\<lambda>g. (real g, Suc g)),
       bernoulli = (\<lambda>q g. (even g, Suc g)),
       randperm = (\<lambda>n g. (rev [0..<n], Suc g)),
       loss_function = (\<lambda>preds val. sum_list (map2 (\<lambda>a b. (a - b) * (a - b)) preds val)),
       optimizer_init = (\<lambda>rate wd \<theta>. 0),
       optimizer_step =
         (\<lambda>opt m batch g.
            (Suc opt,
             (map (\<lambda>b. b - 1) (user_biases m), item_biases m,
              user_embeddings m, item_embeddings m))) \<rparr>"

definition example_module :: BaseModule where
  "example_module =
     \<lparr> BaseModule.n_users = 1, n_items = 2,
       user_biases = [1], item_biases = [0, 0],
       user_embeddings = [[1, 2]], item_embeddings = [[3, 4], [5, 7]],
       dropout_p = 1, training = False \<rparr>"

text \<open>The example module in training mode, with dropout probability one half.\<close>

definition example_training :: BaseModule where
  "example_training = example_module\<lparr> BaseModule.dropout_p := 1 / 2, training := True \<rparr>"

text \<open>
  The construction of a pipeline on the example data, in the generator state 0: two
  factors, no dropout, one epoch, seed 7.
\<close>

definition example_init :: "(error + nat BasePipeline) \<times> nat" where
  "example_init =
     BasePipeline_init toy_torch example_train (Some example_test) BaseModule_class
       2 32 0 (1 / 100) 0 1 False (Some 7) 0"

section \<open>Properties of Interactions\<close>

lemma Interactions_init_Some:
  "Interactions_init trn (Some tst) flag =
     Inr \<lparr> train = flag, train_data = trn, test_data = tst,
           n_users = fst (shape trn), n_items = snd (shape trn),
           train_row = row trn, train_col = col trn, train_val = data trn,
           test_row = row tst, test_col = col tst, test_val = data tst \<rparr>"
  by (simp add: Interactions_init_def tocoo_def bindE_def)

lemma Interactions_init_None: "Interactions_init trn None flag = Inl AttributeError"
  by (simp add: Interactions_init_def tocoo_def bindE_def)

lemma tensor_index_nonneg:
  "0 \<le> i \<Longrightarrow> i < int (length t) \<Longrightarrow> tensor_index t i = Inr (t ! nat i)"
  by (simp add: tensor_index_def)

lemma tensor_index_negative:
  "- int (length t) \<le> i \<Longrightarrow> i < 0 \<Longrightarrow>
   tensor_index t i = Inr (t ! nat (int (length t) + i))"
  by (simp add: tensor_index_def)

lemma tensor_index_outside:
  "i < - int (length t) \<or> int (length t) \<le> i \<Longrightarrow> tensor_index t i = Inl IndexError"
  by (auto simp: tensor_index_def)

lemma bindE_simps [simp]:
  "bindE (Inr x) f = f x" "bindE (Inl e) f = Inl e"
  by (simp_all add: bindE_def)

lemmas prog_defs = ret_def raise_def lift_def draw_def bindP_def on_rng_def self_def update_def

lemma BasePipeline_init_None:
  "fst (BasePipeline_init L trn None cls nf bs p rate wd ne vb seed g) = Inl AttributeError"
  by (simp add: BasePipeline_init_def Interactions_init_None prog_defs)

text \<open>
  C1: with a train matrix and no test matrix the construction of the store does not return:
  \<open>Interactions.__init__\<close> raises \<open>AttributeError\<close> for every train matrix and both values of
  \<open>train\<close>, and so does the construction of the pipeline, for every setting of its
  other arguments and every state of the generator.
\<close>

theorem train_only_construction_raises:
  "Interactions_init trn None flag = Inl AttributeError \<and>
   fst (BasePipeline_init L trn None cls nf bs p rate wd ne vb seed g) = Inl AttributeError"
  by (simp add: BasePipeline_init_None Interactions_init_None)

text \<open>
  C3, counterexample: the example train matrix has shape \<open>(3, 2)\<close>, the test matrix shape
  \<open>(5, 7)\<close>, both are valid sparse matrices, and the store is constructed for both values
  of \<open>train\<close>.
\<close>

theorem shape_mismatch_counterexample:
  "shape example_train \<noteq> shape example_wide \<and>
   coo_valid example_train \<and> coo_valid example_wide \<and>
   is_ok (Interactions_init example_train (Some example_wide) True) \<and>
   is_ok (Interactions_init example_train (Some example_wide) False)"
  by (simp add: example_train_def example_wide_def coo_valid_def is_ok_def Interactions_init_Some)

text \<open>
  C3, as amended: with a train and a test matrix the construction of the store returns
  whatever the two declared shapes are; the store takes \<open>n_users\<close> and \<open>n_items\<close> from the
  shape of the train matrix and keeps both matrices as given.
\<close>

theorem Interactions_init_ignores_shapes:
  "\<exists>ds. Interactions_init trn (Some tst) flag = Inr ds \<and>
        Interactions.n_users ds = fst (shape trn) \<and> Interactions.n_items ds = snd (shape trn) \<and>
        train ds = flag \<and> train_data ds = trn \<and> test_data ds = tst"
  by (simp add: Interactions_init_Some)

text \<open>
  C6, counterexample: on the train split of the example store, of length 3, the index
  \<open>-1\<close> is outside \<open>[0, 3)\<close> and \<open>__getitem__\<close> returns the last entry.
\<close>

theorem getitem_negative_index_counterexample:
  "coo_valid example_train \<and> coo_valid example_test \<and>
   len (projr (Interactions_init example_train (Some example_test) True)) = 3 \<and>
   getitem (projr (Interactions_init example_train (Some example_test) True)) (- 1)
     = Inr ((2, 0), 1)"
  by (simp add: example_train_def example_test_def coo_valid_def Interactions_init_Some
      len_def nnz_def getitem_def tensor_index_def bindE_def)

text \<open>
  C6, as amended: for a store constructed from valid matrices, the length of the selected
  split is its number of stored entries \<open>n\<close>; \<open>__getitem__\<close> returns the entry at \<open>index\<close>
  for \<open>0 \<le> index < n\<close>, the entry at \<open>n + index\<close> for \<open>-n \<le> index < 0\<close>, and raises
  \<open>IndexError\<close> for every other index.
\<close>

theorem getitem_index_range:
  assumes "coo_valid trn" and "coo_valid tst"
    and "Interactions_init trn (Some tst) flag = Inr ds"
  shows "let m = (if flag then trn else tst); n = int (len ds) in
           len ds = nnz m \<and>
           (0 \<le> i \<and> i < n \<longrightarrow>
              getitem ds i = Inr ((row m ! nat i, col m ! nat i), data m ! nat i)) \<and>
           (- n \<le> i \<and> i < 0 \<longrightarrow>
              getitem ds i =
                Inr ((row m ! nat (n + i), col m ! nat (n + i)), data m ! nat (n + i))) \<and>
           (i < - n \<or> n \<le> i \<longrightarrow> getitem ds i = Inl IndexError)"
proof -
  define m where "m = (if flag then trn else tst)"
  have ds: "ds = \<lparr> train = flag, train_data = trn, test_data = tst,
           n_users = fst (shape trn), n_items = snd (shape trn),
           train_row = row trn, train_col = col trn, train_val = data trn,
           test_row = row tst, test_col = col tst, test_val = data tst \<rparr>"
    using assms(3) by (simp add: Interactions_init_Some)
  have lens: "length (row m) = length (data m)" "length (col m) = length (data m)"
    using assms(1,2) by (simp_all add: m_def coo_valid_def)
  have n: "len ds = nnz m"
    by (simp add: ds len_def m_def)
  have get: "getitem ds i =
      bindE (tensor_index (row m) i) (\<lambda>r.
      bindE (tensor_index (col m) i) (\<lambda>c.
      bindE (tensor_index (data m) i) (\<lambda>v. Inr ((r, c), v))))"
    by (simp add: ds getitem_def m_def)
  have a: "getitem ds i = Inr ((row m ! nat i, col m ! nat i), data m ! nat i)"
    if "0 \<le> i" "i < int (len ds)"
    using that by (simp add: get n nnz_def lens tensor_index_nonneg)
  have b: "getitem ds i =
      Inr ((row m ! nat (int (len ds) + i), col m ! nat (int (len ds) + i)),
           data m ! nat (int (len ds) + i))"
    if "- int (len ds) \<le> i" "i < 0"
    using that by (simp add: get n nnz_def lens tensor_index_negative)
  have c: "getitem ds i = Inl IndexError" if "i < - int (len ds) \<or> int (len ds) \<le> i"
    using that by (simp add: get n nnz_def lens tensor_index_outside)
  show ?thesis
    unfolding Let_def m_def [symmetric] using n a b c by blast
qed
theorem getitem_index_range_witness:
  "coo_valid example_train \<and> coo_valid example_test \<and>
   Interactions_init example_train (Some example_test) False
     = Inr (projr (Interactions_init example_train (Some example_test) False)) \<and>
   getitem (projr (Interactions_init example_train (Some example_test) False)) 1
     = Inr ((2, 1), 2) \<and>
   getitem (projr (Interactions_init example_train (Some example_test) False)) (- 2)
     = Inr ((1, 0), 4) \<and>
   getitem (projr (Interactions_init example_train (Some example_test) False)) 2
     = Inl IndexError \<and>
   getitem (projr (Interactions_init example_train (Some example_test) False)) (- 3)
     = Inl IndexError"
proof -
  let ?ds = "projr (Interactions_init example_train (Some example_test) False)"
  have v1: "coo_valid example_train" and v2: "coo_valid example_test"
    by (simp_all add: example_train_def example_test_def coo_valid_def)
  have c: "Interactions_init example_train (Some example_test) False = Inr ?ds"
    by (simp add: Interactions_init_Some)
  have n: "len ?ds = 2"
    by (simp add: Interactions_init_Some len_def nnz_def example_test_def)
  have g1: "getitem ?ds 1 = Inr ((2, 1), 2)"
    using getitem_index_range [OF v1 v2 c, of 1] unfolding Let_def n
    by (simp add: example_test_def)
  have g2: "getitem ?ds (- 2) = Inr ((1, 0), 4)"
    using getitem_index_range [OF v1 v2 c, of "- 2"] unfolding Let_def n
    by (simp add: example_test_def)
  have g3: "getitem ?ds 2 = Inl IndexError"
    using getitem_index_range [OF v1 v2 c, of 2] unfolding Let_def n by simp
  have g4: "getitem ?ds (- 3) = Inl IndexError"
    using getitem_index_range [OF v1 v2 c, of "- 3"] unfolding Let_def n by simp
  show ?thesis
    using v1 v2 c g1 g2 g3 g4 by simp
qed

section \<open>Properties of the modules\<close>

lemma embedding_in_range:
  "list_all (\<lambda>i. 0 \<le> i \<and> i < int (length w)) idx \<Longrightarrow>
   embedding w idx = Inr (map (\<lambda>i. w ! nat i) idx)"
  by (simp add: embedding_def)

lemma length_draws: "length (fst (draws f n g)) = n"
proof (induction n arbitrary: g)
  case 0
  then show ?case by simp
next
  case (Suc n)
  obtain x g1 where a: "f g = (x, g1)" by (cases "f g")
  obtain xs g2 where b: "draws f n g1 = (xs, g2)" by (cases "draws f n g1")
  have "length xs = n" using Suc.IH [of g1] b by simp
  then show ?case by (simp add: a b)
qed

lemma shape_noise_like: "map length (fst (noise_like f x g)) = map length x"
proof (induction x arbitrary: g)
  case Nil
  then show ?case by simp
next
  case (Cons r rs)
  obtain n g1 where d: "draws f (length r) g = (n, g1)" by (cases "draws f (length r) g")
  obtain ns g2 where e: "noise_like f rs g1 = (ns, g2)" by (cases "noise_like f rs g1")
  have "length n = length r" using length_draws [of f "length r" g] d by simp
  moreover have "map length ns = map length rs" using Cons.IH [of g1] e by simp
  ultimately show ?case by (simp add: d e)
qed

lemma length_noise_like: "length (fst (noise_like f x g)) = length x"
  using shape_noise_like [of f x g] by (metis length_map)

lemma dropout_row_identity: "\<not> (0 < p \<and> mode) \<Longrightarrow> dropout_row p mode n x = x"
  by (auto simp: dropout_row_def)

lemma map2_second: "length ns = length xs \<Longrightarrow> map2 (\<lambda>n x. x) ns xs = xs"
  by (induction ns xs rule: list_induct2) auto

lemma fst_dropout:
  "fst (dropout L p mode x g) =
     map2 (dropout_row p mode) (fst (noise_like (bernoulli L (1 - p)) x g)) x"
proof (cases "0 < p \<and> mode")
  case True
  then show ?thesis by (simp add: dropout_def split: prod.splits)
next
  case False
  have "map2 (dropout_row p mode) (fst (noise_like (bernoulli L (1 - p)) x g)) x
      = map2 (\<lambda>n x. x) (fst (noise_like (bernoulli L (1 - p)) x g)) x"
    using False by (auto simp: dropout_row_def)
  also have "\<dots> = x" by (rule map2_second) (rule length_noise_like)
  finally show ?thesis using False by (auto simp: dropout_def)
qed

lemma snd_dropout_identity: "\<not> (0 < p \<and> mode) \<Longrightarrow> snd (dropout L p mode x g) = g"
  by (auto simp: dropout_def)

lemma dropout_identity: "\<not> (0 < p \<and> mode) \<Longrightarrow> dropout L p mode x g = (x, g)"
  by (auto simp: dropout_def)

lemma length_dropout_row:
  "length n = length x \<Longrightarrow> length (dropout_row p mode n x) = length x"
  by (simp add: dropout_row_def)

lemma shape_map2_rows:
  "map length ns = map length xs \<Longrightarrow>
   map length (map2 (dropout_row p mode) ns xs) = map length xs"
proof (induction ns arbitrary: xs)
  case Nil
  then show ?case by simp
next
  case (Cons n ns)
  then obtain y ys where xs: "xs = y # ys" by (cases xs) auto
  with Cons show ?case by (simp add: length_dropout_row)
qed

lemma shape_dropout: "map length (fst (dropout L p mode x g)) = map length x"
  unfolding fst_dropout by (rule shape_map2_rows) (rule shape_noise_like)

lemma length_dropout: "length (fst (dropout L p mode x g)) = length x"
  using shape_dropout [of L p mode x g] by (metis length_map)

lemma nth_dropout:
  "k < length x \<Longrightarrow>
   fst (dropout L p mode x g) ! k =
     dropout_row p mode (fst (noise_like (bernoulli L (1 - p)) x g) ! k) (x ! k)"
  unfolding fst_dropout by (simp add: length_noise_like)

lemma shape_gather:
  assumes "list_all (\<lambda>r. length r = nf) w"
    and "list_all (\<lambda>i. 0 \<le> i \<and> i < int (length w)) idx"
  shows "map length (map (\<lambda>i. w ! nat i) idx) = replicate (length idx) nf"
  using assms(2)
proof (induction idx)
  case Nil
  then show ?case by simp
next
  case (Cons i idx)
  then have "nat i < length w" by auto
  with assms(1) have "length (w ! nat i) = nf" by (simp add: list_all_length)
  with Cons show ?case by simp
qed

lemma nth_sum1_mul:
  "k < length a \<Longrightarrow> length a = length b \<Longrightarrow>
   sum1 (map2 (map2 (*)) a b) ! k = dot (a ! k) (b ! k)"
  by (simp add: sum1_def dot_def)

lemma forward_in_range:
  fixes L :: "('g, 'o) torch" and g :: 'g
  assumes wf: "module_wf m"
    and len: "length users = length items"
    and us: "list_all (\<lambda>u. 0 \<le> u \<and> u < int (BaseModule.n_users m)) users"
    and its: "list_all (\<lambda>i. 0 \<le> i \<and> i < int (BaseModule.n_items m)) items"
  defines "p \<equiv> BaseModule.dropout_p m" and "mode \<equiv> training m"
  defines "ues \<equiv> map (\<lambda>u. user_embeddings m ! nat u) users"
    and "uis \<equiv> map (\<lambda>i. item_embeddings m ! nat i) items"
  defines "g1 \<equiv> snd (dropout L p mode ues g)"
  shows "forward L m users items g =
     (Inr (map2 (+)
            (map2 (+) (map (\<lambda>u. user_biases m ! nat u) users)
                      (map (\<lambda>i. item_biases m ! nat i) items))
            (sum1 (map2 (map2 (*)) (fst (dropout L p mode ues g))
                                    (fst (dropout L p mode uis g1))))),
      snd (dropout L p mode uis g1))"
proof -
  obtain nf where nf: "list_all (\<lambda>r. length r = nf) (user_embeddings m)"
      "list_all (\<lambda>r. length r = nf) (item_embeddings m)"
    using wf by (auto simp: module_wf_def)
  have l: "length (user_biases m) = BaseModule.n_users m"
      "length (item_biases m) = BaseModule.n_items m"
      "length (user_embeddings m) = BaseModule.n_users m"
      "length (item_embeddings m) = BaseModule.n_items m"
    using wf by (simp_all add: module_wf_def)
  have e1: "embedding (user_embeddings m) users = Inr ues"
    unfolding ues_def by (rule embedding_in_range) (simp add: l us)
  have e2: "embedding (item_embeddings m) items = Inr uis"
    unfolding uis_def by (rule embedding_in_range) (simp add: l its)
  have e3: "embedding (user_biases m) users = Inr (map (\<lambda>u. user_biases m ! nat u) users)"
    by (rule embedding_in_range) (simp add: l us)
  have e4: "embedding (item_biases m) items = Inr (map (\<lambda>i. item_biases m ! nat i) items)"
    by (rule embedding_in_range) (simp add: l its)
  have s1: "map length ues = replicate (length users) nf"
    unfolding ues_def by (rule shape_gather [OF nf(1)]) (simp add: l us)
  have s2: "map length uis = replicate (length items) nf"
    unfolding uis_def by (rule shape_gather [OF nf(2)]) (simp add: l its)
  obtain du h1 where d1: "dropout L p mode ues g = (du, h1)"
    by (cases "dropout L p mode ues g")
  obtain di h2 where d2: "dropout L p mode uis h1 = (di, h2)"
    by (cases "dropout L p mode uis h1")
  have g1: "g1 = h1" by (simp add: g1_def d1)
  have "map length du = map length ues"
    using shape_dropout [of L p mode ues g] by (simp add: d1)
  moreover have "map length di = map length uis"
    using shape_dropout [of L p mode uis h1] by (simp add: d2)
  ultimately have sh: "map length du = map length di"
    by (simp add: s1 s2 len)
  have lu: "length ues = length items" "length uis = length items"
    by (simp_all add: ues_def uis_def len)
  have ld: "length du = length items" "length di = length items"
    using length_dropout [of L p mode ues g] length_dropout [of L p mode uis h1]
    by (simp_all add: d1 d2 lu)
  show ?thesis
    by (simp add: forward_def prog_defs e1 e2 e3 e4 tensor_op_def tensor_op2_def sum1_def
        p_def [symmetric] mode_def [symmetric] g1 d1 d2 sh ld len)
qed

text \<open>
  C4: for a batch of in-range (user, item) pairs, \<open>forward\<close> returns one score per
  pair, the score of pair \<open>k\<close> being \<open>user_bias[u] + item_bias[i] +
  dot(dropout(user_factors[u]), dropout(item_factors[i]))\<close>, where dropout applies to each
  row the noise drawn for it from the generator; in evaluation mode dropout is the
  identity, draws nothing, and the score is \<open>user_bias[u] + item_bias[i] +
  dot(user_factors[u], item_factors[i])\<close>.
\<close>

theorem forward_scores:
  fixes L :: "('g, 'o) torch" and g :: 'g
  assumes wf: "module_wf m"
    and len: "length users = length items"
    and us: "list_all (\<lambda>u. 0 \<le> u \<and> u < int (BaseModule.n_users m)) users"
    and its: "list_all (\<lambda>i. 0 \<le> i \<and> i < int (BaseModule.n_items m)) items"
  shows "let p = BaseModule.dropout_p m; mode = training m;
             ues = map (\<lambda>u. user_embeddings m ! nat u) users;
             uis = map (\<lambda>i. item_embeddings m ! nat i) items;
             unoise = fst (noise_like (bernoulli L (1 - p)) ues g);
             g1 = snd (dropout L p mode ues g);
             inoise = fst (noise_like (bernoulli L (1 - p)) uis g1);
             g2 = snd (dropout L p mode uis g1)
         in \<exists>preds.
              forward L m users items g = (Inr preds, g2) \<and>
              length preds = length users \<and>
              (\<forall>k<length users.
                 preds ! k =
                   user_biases m ! nat (users ! k) + item_biases m ! nat (items ! k) +
                   dot (dropout_row p mode (unoise ! k) (user_embeddings m ! nat (users ! k)))
                       (dropout_row p mode (inoise ! k) (item_embeddings m ! nat (items ! k)))) \<and>
              (\<not> training m \<longrightarrow>
                 g2 = g \<and>
                 (\<forall>k<length users.
                    preds ! k =
                      user_biases m ! nat (users ! k) + item_biases m ! nat (items ! k) +
                      dot (user_embeddings m ! nat (users ! k))
                          (item_embeddings m ! nat (items ! k))))"
proof -
  define p where "p = BaseModule.dropout_p m"
  define mode where "mode = training m"
  define ues where "ues = map (\<lambda>u. user_embeddings m ! nat u) users"
  define uis where "uis = map (\<lambda>i. item_embeddings m ! nat i) items"
  define unoise where "unoise = fst (noise_like (bernoulli L (1 - p)) ues g)"
  define g1 where "g1 = snd (dropout L p mode ues g)"
  define inoise where "inoise = fst (noise_like (bernoulli L (1 - p)) uis g1)"
  define g2 where "g2 = snd (dropout L p mode uis g1)"
  define du where "du = fst (dropout L p mode ues g)"
  define di where "di = fst (dropout L p mode uis g1)"
  define preds where "preds =
     map2 (+) (map2 (+) (map (\<lambda>u. user_biases m ! nat u) users)
                        (map (\<lambda>i. item_biases m ! nat i) items))
              (sum1 (map2 (map2 (*)) du di))"
  have fw: "forward L m users items g = (Inr preds, g2)"
    using forward_in_range [OF wf len us its, of L g]
    by (simp add: preds_def du_def di_def g2_def g1_def ues_def uis_def p_def mode_def)
  have lu: "length ues = length users" "length uis = length users"
    by (simp_all add: ues_def uis_def len)
  have ld: "length du = length users" "length di = length users"
    by (simp_all add: du_def di_def length_dropout lu)
  have lp: "length preds = length users"
    by (simp add: preds_def sum1_def ld len)
  have nth: "preds ! k =
      user_biases m ! nat (users ! k) + item_biases m ! nat (items ! k) +
      dot (dropout_row p mode (unoise ! k) (user_embeddings m ! nat (users ! k)))
          (dropout_row p mode (inoise ! k) (item_embeddings m ! nat (items ! k)))"
    if k: "k < length users" for k
  proof -
    have "du ! k = dropout_row p mode (unoise ! k) (ues ! k)"
      unfolding du_def unoise_def using k by (simp add: nth_dropout lu)
    moreover have "di ! k = dropout_row p mode (inoise ! k) (uis ! k)"
      unfolding di_def inoise_def using k by (simp add: nth_dropout lu)
    moreover have "sum1 (map2 (map2 (*)) du di) ! k = dot (du ! k) (di ! k)"
      using k by (simp add: nth_sum1_mul ld)
    ultimately show ?thesis
      using k len by (simp add: preds_def sum1_def ld ues_def uis_def)
  qed
  have ev: "g2 = g \<and> (\<forall>k<length users.
       preds ! k =
         user_biases m ! nat (users ! k) + item_biases m ! nat (items ! k) +
         dot (user_embeddings m ! nat (users ! k)) (item_embeddings m ! nat (items ! k)))"
    if "\<not> training m"
  proof -
    have off: "\<not> (0 < p \<and> mode)" using that by (simp add: mode_def)
    have "g2 = g" by (simp add: g2_def g1_def snd_dropout_identity [OF off])
    then show ?thesis using nth by (simp add: dropout_row_identity [OF off])
  qed
  show ?thesis
    unfolding Let_def
    using fw lp nth ev
    unfolding p_def mode_def ues_def uis_def unoise_def g1_def inoise_def g2_def
    by blast
qed

lemma wf_example_module: "module_wf example_module"
  unfolding module_wf_def example_module_def by (simp add: exI [of _ 2])

lemma all_less_2: "(\<forall>k<2. P k) \<longleftrightarrow> P 0 \<and> P (Suc 0)"
  by (auto simp: less_Suc_eq numeral_2_eq_2)

lemma wf_example_training: "module_wf example_training"
  unfolding module_wf_def example_training_def example_module_def by (simp add: exI [of _ 2])

lemma all_less_Suc_Suc_0: "(\<forall>k<Suc (Suc 0). P k) \<longleftrightarrow> P 0 \<and> P (Suc 0)"
  by (auto simp: less_Suc_eq)

theorem forward_scores_witness:
  "module_wf example_module \<and>
   length [0, 0 :: int] = length [0, 1 :: int] \<and>
   list_all (\<lambda>u. 0 \<le> u \<and> u < int (BaseModule.n_users example_module)) [0, 0] \<and>
   list_all (\<lambda>i. 0 \<le> i \<and> i < int (BaseModule.n_items example_module)) [0, 1] \<and>
   \<not> training example_module \<and>
   forward toy_torch example_module [0, 0] [0, 1] (0::nat) = (Inr [12, 20], 0) \<and>
   module_wf example_training \<and>
   list_all (\<lambda>u. 0 \<le> u \<and> u < int (BaseModule.n_users example_training)) [0, 0] \<and>
   list_all (\<lambda>i. 0 \<le> i \<and> i < int (BaseModule.n_items example_training)) [0, 1] \<and>
   training example_training \<and>
   forward toy_torch example_training [0, 0] [0, 1] (0::nat) = (Inr [13, 21], 8)"
proof -
  note wf = wf_example_module
  have len: "length [0, 0 :: int] = length [0, 1 :: int]" by simp
  have us: "list_all (\<lambda>u. 0 \<le> u \<and> u < int (BaseModule.n_users example_module)) [0, 0]"
    by (simp add: example_module_def)
  have its: "list_all (\<lambda>i. 0 \<le> i \<and> i < int (BaseModule.n_items example_module)) [0, 1]"
    by (simp add: example_module_def)
  have ev: "\<not> training example_module" by (simp add: example_module_def)
  obtain preds where fw: "forward toy_torch example_module [0, 0] [0, 1] (0::nat) = (Inr preds, 0)"
    and lp: "length preds = 2"
    and p0: "preds ! 0 = 12" and p1: "preds ! 1 = 20"
    using forward_scores [OF wf len us its, of toy_torch "0::nat"] ev
    unfolding Let_def
    by (auto simp: example_module_def dot_def all_less_2 numeral_2_eq_2)
  have "preds = [12, 20]"
    using lp p0 p1 by (auto simp: list_eq_iff_nth_eq all_less_2 numeral_2_eq_2 less_Suc_eq)
  with fw have eval: "forward toy_torch example_module [0, 0] [0, 1] (0::nat) = (Inr [12, 20], 0)"
    by simp
  note wft = wf_example_training
  have ust: "list_all (\<lambda>u. 0 \<le> u \<and> u < int (BaseModule.n_users example_training)) [0, 0]"
    by (simp add: example_training_def example_module_def)
  have itst: "list_all (\<lambda>i. 0 \<le> i \<and> i < int (BaseModule.n_items example_training)) [0, 1]"
    by (simp add: example_training_def example_module_def)
  have tr: "training example_training" by (simp add: example_training_def)
  obtain predt where
    fwt: "forward toy_torch example_training [0, 0] [0, 1] (0::nat) = (Inr predt, 8)"
    and lpt: "length predt = 2"
    and t0: "predt ! 0 = 13" and t1: "predt ! 1 = 21"
    using forward_scores [OF wft len ust itst, of toy_torch "0::nat"]
    unfolding Let_def
    by (auto simp: example_training_def example_module_def dot_def all_less_Suc_Suc_0
        dropout_def dropout_row_def dropout_noise_def toy_torch_def)
  have "predt = [13, 21]"
    using lpt t0 t1 by (auto simp: list_eq_iff_nth_eq all_less_2 numeral_2_eq_2 less_Suc_eq)
  with fwt have train: "forward toy_torch example_training [0, 0] [0, 1] (0::nat) = (Inr [13, 21], 8)"
    by simp
  show ?thesis
    using wf len us its ev eval wft ust itst tr train by simp
qed

lemma dot_zero_left: "\<forall>v\<in>set a. v = 0 \<Longrightarrow> dot a y = 0"
proof (induction a arbitrary: y)
  case Nil
  then show ?case by (simp add: dot_def)
next
  case (Cons v a)
  then have "dot a ys = 0" for ys by simp
  with Cons.prems show ?case by (cases y) (simp_all add: dot_def)
qed

lemma dropout_row_one: "v \<in> set (dropout_row 1 True n x) \<Longrightarrow> v = 0"
  by (auto simp: dropout_row_def dropout_noise_def dest!: set_zip_leftD)

lemma dot_dropout_one: "dot (dropout_row 1 True nu x) (dropout_row 1 True ni y) = 0"
  by (rule dot_zero_left) (auto dest: dropout_row_one)

lemma dot_sub_swap: "dot u (map2 (-) a b) = - dot u (map2 (-) b a)"
proof (induction u arbitrary: a b)
  case Nil
  then show ?case by (simp add: dot_def)
next
  case (Cons x u)
  show ?case
  proof (cases a)
    case Nil
    then show ?thesis by (simp add: dot_def)
  next
    case a: (Cons y a')
    show ?thesis
    proof (cases b)
      case Nil
      then show ?thesis by (simp add: dot_def)
    next
      case b: (Cons z b')
      have "dot u (map2 (-) a' b') = - dot u (map2 (-) b' a')" by (rule Cons.IH)
      then show ?thesis by (simp add: a b dot_def algebra_simps)
    qed
  qed
qed

lemma shape_map2_map2:
  "map length a = map length b \<Longrightarrow> map length (map2 (map2 f) a b) = map length a"
proof (induction a arbitrary: b)
  case Nil
  then show ?case by simp
next
  case (Cons x a)
  then obtain y b' where b: "b = y # b'" by (cases b) auto
  with Cons show ?case by simp
qed

lemma BPR_forward_in_range:
  fixes L :: "('g, 'o) torch" and g :: 'g
  assumes wf: "module_wf m"
    and len: "length users = length pos" "length neg = length pos"
    and us: "list_all (\<lambda>u. 0 \<le> u \<and> u < int (BaseModule.n_users m)) users"
    and ps: "list_all (\<lambda>i. 0 \<le> i \<and> i < int (BaseModule.n_items m)) pos"
    and ns: "list_all (\<lambda>i. 0 \<le> i \<and> i < int (BaseModule.n_items m)) neg"
    and off: "\<not> training m \<or> BaseModule.dropout_p m = 0"
  shows "\<exists>s. BPR_forward L m users pos neg g = (Inr s, g) \<and> length s = length pos \<and>
     (\<forall>k<length pos.
        s ! k =
          dot (user_embeddings m ! nat (users ! k))
              (map2 (-) (item_embeddings m ! nat (pos ! k)) (item_embeddings m ! nat (neg ! k)))
          + user_biases m ! nat (users ! k)
          + (item_biases m ! nat (pos ! k) - item_biases m ! nat (neg ! k)))"
proof -
  define ues where "ues = map (\<lambda>u. user_embeddings m ! nat u) users"
  define pe where "pe = map (\<lambda>i. item_embeddings m ! nat i) pos"
  define ne where "ne = map (\<lambda>i. item_embeddings m ! nat i) neg"
  define uis where "uis = map2 (map2 (-)) pe ne"
  define ub where "ub = map (\<lambda>u. user_biases m ! nat u) users"
  define pb where "pb = map (\<lambda>i. item_biases m ! nat i) pos"
  define nb where "nb = map (\<lambda>i. item_biases m ! nat i) neg"
  define s where "s = map2 (+) (map2 (+) (sum1 (map2 (map2 (*)) ues uis)) ub) (map2 (-) pb nb)"
  obtain nf where nf: "list_all (\<lambda>r. length r = nf) (user_embeddings m)"
      "list_all (\<lambda>r. length r = nf) (item_embeddings m)"
    using wf by (auto simp: module_wf_def)
  have l: "length (user_biases m) = BaseModule.n_users m"
      "length (item_biases m) = BaseModule.n_items m"
      "length (user_embeddings m) = BaseModule.n_users m"
      "length (item_embeddings m) = BaseModule.n_items m"
    using wf by (simp_all add: module_wf_def)
  have e1: "embedding (user_embeddings m) users = Inr ues"
    unfolding ues_def by (rule embedding_in_range) (simp add: l us)
  have e2: "embedding (item_embeddings m) pos = Inr pe"
    unfolding pe_def by (rule embedding_in_range) (simp add: l ps)
  have e3: "embedding (item_embeddings m) neg = Inr ne"
    unfolding ne_def by (rule embedding_in_range) (simp add: l ns)
  have e4: "embedding (user_biases m) users = Inr ub"
    unfolding ub_def by (rule embedding_in_range) (simp add: l us)
  have e5: "embedding (item_biases m) pos = Inr pb"
    unfolding pb_def by (rule embedding_in_range) (simp add: l ps)
  have e6: "embedding (item_biases m) neg = Inr nb"
    unfolding nb_def by (rule embedding_in_range) (simp add: l ns)
  have s1: "map length ues = replicate (length pos) nf"
    unfolding ues_def using shape_gather [OF nf(1), of users] by (simp add: l us len)
  have s2: "map length pe = replicate (length pos) nf"
    unfolding pe_def using shape_gather [OF nf(2), of pos] by (simp add: l ps)
  have s3: "map length ne = replicate (length pos) nf"
    unfolding ne_def using shape_gather [OF nf(2), of neg] by (simp add: l ns len)
  have s4: "map length uis = replicate (length pos) nf"
    unfolding uis_def using shape_map2_map2 [of pe ne "(-)"] by (simp add: s2 s3)
  have ls: "length ues = length pos" "length pe = length pos" "length ne = length pos"
      "length ub = length pos" "length pb = length pos" "length nb = length pos"
    by (simp_all add: ues_def pe_def ne_def ub_def pb_def nb_def len)
  have lu: "length uis = length pos"
    by (simp add: uis_def ls)
  have id: "\<not> (0 < BaseModule.dropout_p m \<and> training m)"
    using off by auto
  have fw: "BPR_forward L m users pos neg g = (Inr s, g)"
    by (simp add: BPR_forward_def prog_defs e1 e2 e3 e4 e5 e6 tensor_op_def tensor_op2_def
        dropout_identity [OF id] s1 s2 s3 s4 uis_def [symmetric] sum1_def ls lu s_def)
  have lens: "length s = length pos"
    by (simp add: s_def sum1_def ls lu)
  have nth: "s ! k =
      dot (user_embeddings m ! nat (users ! k))
          (map2 (-) (item_embeddings m ! nat (pos ! k)) (item_embeddings m ! nat (neg ! k)))
      + user_biases m ! nat (users ! k)
      + (item_biases m ! nat (pos ! k) - item_biases m ! nat (neg ! k))"
    if k: "k < length pos" for k
  proof -
    have "sum1 (map2 (map2 (*)) ues uis) ! k = dot (ues ! k) (uis ! k)"
      using k by (simp add: nth_sum1_mul ls lu)
    moreover have "uis ! k = map2 (-) (pe ! k) (ne ! k)"
      using k by (simp add: uis_def ls)
    ultimately show ?thesis
      using k len
      by (simp add: s_def sum1_def ls lu ues_def pe_def ne_def ub_def pb_def nb_def)
  qed
  show ?thesis using fw lens nth by blast
qed

text \<open>
  C5, counterexample: in evaluation mode, with user bias 1, the margin of the triple
  \<open>(0, 0, 1)\<close> is \<open>-7\<close> and the margin of the swapped triple \<open>(0, 1, 0)\<close> is \<open>9\<close>, which is
  not \<open>7\<close>.
\<close>

theorem BPR_antisymmetry_counterexample:
  "\<not> training example_module \<and>
   BPR_forward toy_torch example_module [0] [0] [1] (0::nat) = (Inr [- 7], 0) \<and>
   BPR_forward toy_torch example_module [0] [1] [0] (0::nat) = (Inr [9], 0) \<and>
   [9 :: real] \<noteq> map uminus [- 7]"
  by (simp add: BPR_forward_def prog_defs example_module_def embedding_def tensor_op_def
      tensor_op2_def dropout_def sum1_def)

text \<open>
  C5, as amended: for in-range triples and dropout acting as the identity (evaluation mode
  or \<open>dropout_p = 0\<close>), both calls return, and the margin of the swapped triple is twice
  the user bias minus the margin of the triple: the user bias enters both margins with the
  same sign. Where the user bias is zero the swapped margin is the exact negation.
\<close>

theorem BPR_swap:
  fixes L :: "('g, 'o) torch" and g :: 'g
  assumes wf: "module_wf m"
    and len: "length users = length pos" "length neg = length pos"
    and us: "list_all (\<lambda>u. 0 \<le> u \<and> u < int (BaseModule.n_users m)) users"
    and ps: "list_all (\<lambda>i. 0 \<le> i \<and> i < int (BaseModule.n_items m)) pos"
    and ns: "list_all (\<lambda>i. 0 \<le> i \<and> i < int (BaseModule.n_items m)) neg"
    and off: "\<not> training m \<or> BaseModule.dropout_p m = 0"
  shows "\<exists>s s'. BPR_forward L m users pos neg g = (Inr s, g) \<and>
                BPR_forward L m users neg pos g = (Inr s', g) \<and>
                length s = length users \<and> length s' = length users \<and>
                (\<forall>k<length users.
                   s' ! k = 2 * user_biases m ! nat (users ! k) - s ! k \<and>
                   (user_biases m ! nat (users ! k) = 0 \<longrightarrow> s' ! k = - s ! k))"
proof -
  obtain s where s: "BPR_forward L m users pos neg g = (Inr s, g)" "length s = length pos"
    and sk: "\<And>k. k < length pos \<Longrightarrow>
        s ! k =
          dot (user_embeddings m ! nat (users ! k))
              (map2 (-) (item_embeddings m ! nat (pos ! k)) (item_embeddings m ! nat (neg ! k)))
          + user_biases m ! nat (users ! k)
          + (item_biases m ! nat (pos ! k) - item_biases m ! nat (neg ! k))"
    using BPR_forward_in_range [OF wf len us ps ns off, of L g] by blast
  have len': "length users = length neg" "length pos = length neg"
    using len by simp_all
  obtain s' where s': "BPR_forward L m users neg pos g = (Inr s', g)" "length s' = length neg"
    and sk': "\<And>k. k < length neg \<Longrightarrow>
        s' ! k =
          dot (user_embeddings m ! nat (users ! k))
              (map2 (-) (item_embeddings m ! nat (neg ! k)) (item_embeddings m ! nat (pos ! k)))
          + user_biases m ! nat (users ! k)
          + (item_biases m ! nat (neg ! k) - item_biases m ! nat (pos ! k))"
    using BPR_forward_in_range [OF wf len' us ns ps off, of L g] by blast
  have "s' ! k = 2 * user_biases m ! nat (users ! k) - s ! k" if "k < length users" for k
  proof -
    have "k < length pos" "k < length neg" using that len by simp_all
    then show ?thesis
      using sk [of k] sk' [of k]
        dot_sub_swap [of "user_embeddings m ! nat (users ! k)"
          "item_embeddings m ! nat (neg ! k)" "item_embeddings m ! nat (pos ! k)"]
      by simp
  qed
  then have "\<forall>k<length users.
      s' ! k = 2 * user_biases m ! nat (users ! k) - s ! k \<and>
      (user_biases m ! nat (users ! k) = 0 \<longrightarrow> s' ! k = - s ! k)"
    by simp
  with s s' len show ?thesis by auto
qed

theorem BPR_swap_witness:
  "module_wf example_module \<and>
   list_all (\<lambda>u. 0 \<le> u \<and> u < int (BaseModule.n_users example_module)) [0] \<and>
   list_all (\<lambda>i. 0 \<le> i \<and> i < int (BaseModule.n_items example_module)) [0] \<and>
   list_all (\<lambda>i. 0 \<le> i \<and> i < int (BaseModule.n_items example_module)) [1] \<and>
   \<not> training example_module \<and>
   (\<exists>s s'. BPR_forward toy_torch example_module [0] [0] [1] (0::nat) = (Inr s, 0) \<and>
           BPR_forward toy_torch example_module [0] [1] [0] (0::nat) = (Inr s', 0) \<and>
           s' ! 0 = 2 * 1 - s ! 0) \<and>
   module_wf (example_module\<lparr> user_biases := [0] \<rparr>) \<and>
   user_biases (example_module\<lparr> user_biases := [0] \<rparr>) ! 0 = 0 \<and>
   (\<exists>s s'. BPR_forward toy_torch (example_module\<lparr> user_biases := [0] \<rparr>) [0] [0] [1] (0::nat)
             = (Inr s, 0) \<and>
           BPR_forward toy_torch (example_module\<lparr> user_biases := [0] \<rparr>) [0] [1] [0] (0::nat)
             = (Inr s', 0) \<and>
           s' ! 0 = - s ! 0)"
proof -
  let ?z = "example_module\<lparr> user_biases := [0] \<rparr>"
  have len: "length [0 :: int] = length [0 :: int]" "length [1 :: int] = length [0 :: int]"
    by simp_all
  have us: "list_all (\<lambda>u. 0 \<le> u \<and> u < int (BaseModule.n_users example_module)) [0]"
    by (simp add: example_module_def)
  have ps: "list_all (\<lambda>i. 0 \<le> i \<and> i < int (BaseModule.n_items example_module)) [0]"
    by (simp add: example_module_def)
  have ns: "list_all (\<lambda>i. 0 \<le> i \<and> i < int (BaseModule.n_items example_module)) [1]"
    by (simp add: example_module_def)
  have ev: "\<not> training example_module" by (simp add: example_module_def)
  then have off: "\<not> training example_module \<or> BaseModule.dropout_p example_module = 0"
    by simp
  have ub: "user_biases example_module ! 0 = 1"
    by (simp add: example_module_def)
  have one: "\<exists>s s'. BPR_forward toy_torch example_module [0] [0] [1] (0::nat) = (Inr s, 0) \<and>
           BPR_forward toy_torch example_module [0] [1] [0] (0::nat) = (Inr s', 0) \<and>
           s' ! 0 = 2 * 1 - s ! 0"
    using BPR_swap [OF wf_example_module len us ps ns off, of toy_torch "0::nat"]
    by (auto simp: ub)
  have wfz: "module_wf ?z"
    unfolding module_wf_def example_module_def by (simp add: exI [of _ 2])
  have usz: "list_all (\<lambda>u. 0 \<le> u \<and> u < int (BaseModule.n_users ?z)) [0]"
    by (simp add: example_module_def)
  have psz: "list_all (\<lambda>i. 0 \<le> i \<and> i < int (BaseModule.n_items ?z)) [0]"
    by (simp add: example_module_def)
  have nsz: "list_all (\<lambda>i. 0 \<le> i \<and> i < int (BaseModule.n_items ?z)) [1]"
    by (simp add: example_module_def)
  have offz: "\<not> training ?z \<or> BaseModule.dropout_p ?z = 0"
    by (simp add: example_module_def)
  have ubz: "user_biases ?z ! 0 = 0" by simp
  have two: "\<exists>s s'. BPR_forward toy_torch ?z [0] [0] [1] (0::nat) = (Inr s, 0) \<and>
           BPR_forward toy_torch ?z [0] [1] [0] (0::nat) = (Inr s', 0) \<and>
           s' ! 0 = - s ! 0"
    using BPR_swap [OF wfz len usz psz nsz offz, of toy_torch "0::nat"]
    by auto
  show ?thesis
    using wf_example_module us ps ns ev one wfz ubz two by blast
qed

text \<open>
  C7, counterexample: the example module has \<open>dropout_p = 1\<close> and is in evaluation mode; its
  scores for the pairs \<open>(0, 0)\<close> and \<open>(0, 1)\<close> are 12 and 20, while the sum of the two biases
  is 1 for both, and the factor-dot term of the first is 11.
\<close>

theorem dropout_one_evaluation_counterexample:
  "BaseModule.dropout_p example_module = 1 \<and>
   forward toy_torch example_module [0, 0] [0, 1] (0::nat) = (Inr [12, 20], 0) \<and>
   user_biases example_module ! 0 + item_biases example_module ! 0 = 1 \<and>
   user_biases example_module ! 0 + item_biases example_module ! 1 = 1 \<and>
   dot (user_embeddings example_module ! 0) (item_embeddings example_module ! 0) = 11"
  by (simp add: forward_def prog_defs example_module_def embedding_def tensor_op_def
      tensor_op2_def dropout_def sum1_def dot_def)

text \<open>
  C7, as amended: for a module with \<open>dropout_p = 1\<close> in training mode and a batch of
  in-range pairs, each score is \<open>user_bias[u] + item_bias[i]\<close>, and the factor-dot term of
  rows that went through dropout is zero whatever the noise.
\<close>

theorem dropout_one_training:
  fixes L :: "('g, 'o) torch" and g :: 'g
  assumes wf: "module_wf m"
    and len: "length users = length items"
    and us: "list_all (\<lambda>u. 0 \<le> u \<and> u < int (BaseModule.n_users m)) users"
    and its: "list_all (\<lambda>i. 0 \<le> i \<and> i < int (BaseModule.n_items m)) items"
    and one: "BaseModule.dropout_p m = 1"
    and tr: "training m"
  shows "(\<exists>g'. forward L m users items g =
            (Inr (map2 (\<lambda>u i. user_biases m ! nat u + item_biases m ! nat i) users items), g')) \<and>
         (\<forall>nu ni x y. dot (dropout_row (BaseModule.dropout_p m) (training m) nu x)
                          (dropout_row (BaseModule.dropout_p m) (training m) ni y) = 0)"
proof -
  define ues where "ues = map (\<lambda>u. user_embeddings m ! nat u) users"
  define uis where "uis = map (\<lambda>i. item_embeddings m ! nat i) items"
  define g1 where "g1 = snd (dropout L 1 True ues g)"
  define du where "du = fst (dropout L 1 True ues g)"
  define di where "di = fst (dropout L 1 True uis g1)"
  have fw: "forward L m users items g =
     (Inr (map2 (+)
            (map2 (+) (map (\<lambda>u. user_biases m ! nat u) users)
                      (map (\<lambda>i. item_biases m ! nat i) items))
            (sum1 (map2 (map2 (*)) du di))),
      snd (dropout L 1 True uis g1))"
    using forward_in_range [OF wf len us its, of L g]
    by (simp add: one tr du_def di_def g1_def ues_def uis_def)
  have lu: "length ues = length users" "length uis = length users"
    by (simp_all add: ues_def uis_def len)
  have ld: "length du = length users" "length di = length users"
    by (simp_all add: du_def di_def length_dropout lu)
  have z: "sum1 (map2 (map2 (*)) du di) ! k = 0" if k: "k < length users" for k
  proof -
    have "du ! k = dropout_row 1 True (fst (noise_like (bernoulli L (1 - 1)) ues g) ! k) (ues ! k)"
      unfolding du_def using k by (simp add: nth_dropout lu)
    moreover have "di ! k =
        dropout_row 1 True (fst (noise_like (bernoulli L (1 - 1)) uis g1) ! k) (uis ! k)"
      unfolding di_def using k by (simp add: nth_dropout lu)
    moreover have "sum1 (map2 (map2 (*)) du di) ! k = dot (du ! k) (di ! k)"
      using k by (simp add: nth_sum1_mul ld)
    ultimately show ?thesis by (simp add: dot_dropout_one)
  qed
  have "map2 (+)
          (map2 (+) (map (\<lambda>u. user_biases m ! nat u) users)
                    (map (\<lambda>i. item_biases m ! nat i) items))
          (sum1 (map2 (map2 (*)) du di))
        = map2 (\<lambda>u i. user_biases m ! nat u + item_biases m ! nat i) users items"
  proof (rule nth_equalityI)
    show "length (map2 (+)
          (map2 (+) (map (\<lambda>u. user_biases m ! nat u) users)
                    (map (\<lambda>i. item_biases m ! nat i) items))
          (sum1 (map2 (map2 (*)) du di)))
        = length (map2 (\<lambda>u i. user_biases m ! nat u + item_biases m ! nat i) users items)"
      by (simp add: sum1_def ld len)
  next
    fix k
    assume "k < length (map2 (+)
          (map2 (+) (map (\<lambda>u. user_biases m ! nat u) users)
                    (map (\<lambda>i. item_biases m ! nat i) items))
          (sum1 (map2 (map2 (*)) du di)))"
    then have k: "k < length users" by (simp add: sum1_def ld len)
    have lz: "length (sum1 (map2 (map2 (*)) du di)) = length users"
      by (simp add: sum1_def ld)
    show "map2 (+)
          (map2 (+) (map (\<lambda>u. user_biases m ! nat u) users)
                    (map (\<lambda>i. item_biases m ! nat i) items))
          (sum1 (map2 (map2 (*)) du di)) ! k
        = map2 (\<lambda>u i. user_biases m ! nat u + item_biases m ! nat i) users items ! k"
      using k len z [OF k] lz by simp
  qed
  with fw have "\<exists>g'. forward L m users items g =
     (Inr (map2 (\<lambda>u i. user_biases m ! nat u + item_biases m ! nat i) users items), g')"
    by simp
  then show ?thesis by (simp add: one tr dot_dropout_one)
qed

theorem dropout_one_training_witness:
  "module_wf (example_module\<lparr>training := True\<rparr>) \<and>
   BaseModule.dropout_p (example_module\<lparr>training := True\<rparr>) = 1 \<and>
   training (example_module\<lparr>training := True\<rparr>) \<and>
   list_all (\<lambda>u. 0 \<le> u \<and> u < int (BaseModule.n_users (example_module\<lparr>training := True\<rparr>))) [0, 0] \<and>
   list_all (\<lambda>i. 0 \<le> i \<and> i < int (BaseModule.n_items (example_module\<lparr>training := True\<rparr>))) [0, 1] \<and>
   fst (forward toy_torch (example_module\<lparr>training := True\<rparr>) [0, 0] [0, 1] (0::nat)) = Inr [1, 1]"
proof -
  let ?m = "example_module\<lparr>training := True\<rparr>"
  have wf: "module_wf ?m"
    unfolding module_wf_def example_module_def by (simp add: exI [of _ 2])
  have len: "length [0, 0 :: int] = length [0, 1 :: int]" by simp
  have us: "list_all (\<lambda>u. 0 \<le> u \<and> u < int (BaseModule.n_users ?m)) [0, 0]"
    by (simp add: example_module_def)
  have its: "list_all (\<lambda>i. 0 \<le> i \<and> i < int (BaseModule.n_items ?m)) [0, 1]"
    by (simp add: example_module_def)
  have one: "BaseModule.dropout_p ?m = 1" by (simp add: example_module_def)
  have tr: "training ?m" by simp
  have "fst (forward toy_torch ?m [0, 0] [0, 1] (0::nat)) = Inr [1, 1]"
    using dropout_one_training [OF wf len us its one tr, of toy_torch "0::nat"]
    by (auto simp: example_module_def)
  with wf us its one tr show ?thesis by simp
qed

section \<open>Properties of the pipeline\<close>

lemma validation_step_frame: "fst (snd (validation_step L dl idxs (q, g))) = q"
  by (simp add: validation_step_def prog_defs split: sum.splits prod.splits)

lemma validation_batches_frame: "fst (snd (validation_batches L dl bs acc (q, g))) = q"
proof (induction bs arbitrary: acc g)
  case Nil
  then show ?case by (simp add: ret_def)
next
  case (Cons b bs)
  obtain r q1 g1 where s: "validation_step L dl b (q, g) = (r, (q1, g1))"
    by (cases "validation_step L dl b (q, g)") auto
  have q1: "q1 = q" using validation_step_frame [of L dl b q g] by (simp add: s)
  show ?case
    by (cases r) (simp_all add: bindP_def s q1 Cons.IH)
qed

lemma validation_loss_frame:
  "fst (snd (validation_loss L (q, g))) = q\<lparr> model := (model q)\<lparr> training := False \<rparr> \<rparr>"
proof -
  let ?q = "q\<lparr> model := (model q)\<lparr> training := False \<rparr> \<rparr>"
  show ?thesis
  proof (cases "test_loader q")
    case None
    then show ?thesis by (simp add: validation_loss_def prog_defs)
  next
    case (Some dl)
    obtain bs g1 where b: "batches_of L dl g = (Inr bs, g1)"
      by (cases "batches_of L dl g") (auto simp: batches_of_def draw_def split: prod.splits)
    obtain r q2 g2 where v: "validation_batches L dl bs 0 (?q, g1) = (r, (q2, g2))"
      by (cases "validation_batches L dl bs 0 (?q, g1)") auto
    have q2: "q2 = ?q" using validation_batches_frame [of L dl bs 0 ?q g1] by (simp add: v)
    show ?thesis
      by (cases r; cases "test_interactions q")
        (simp_all add: validation_loss_def prog_defs Some b v q2)
  qed
qed

text \<open>
  C8: a validation pass leaves the four parameter tensors of the model as they were, and
  the state of the optimizer too, whether the pass returns a loss or raises; of the whole
  pipeline it changes the mode flag of the model and nothing else.
\<close>

theorem validation_keeps_parameters:
  "user_biases (model (fst (snd (validation_loss L (q, g))))) = user_biases (model q) \<and>
   item_biases (model (fst (snd (validation_loss L (q, g))))) = item_biases (model q) \<and>
   user_embeddings (model (fst (snd (validation_loss L (q, g))))) = user_embeddings (model q) \<and>
   item_embeddings (model (fst (snd (validation_loss L (q, g))))) = item_embeddings (model q) \<and>
   parameters (model (fst (snd (validation_loss L (q, g))))) = parameters (model q) \<and>
   optimizer (fst (snd (validation_loss L (q, g)))) = optimizer q \<and>
   fst (snd (validation_loss L (q, g))) = q\<lparr> model := (model q)\<lparr> training := False \<rparr> \<rparr>"
  by (simp add: validation_loss_frame parameters_def)

lemma train_step_frame:
  "\<exists>m opt. fst (snd (train_step L idxs (q, g))) = q\<lparr> model := m, optimizer := opt \<rparr>"
proof -
  have id: "q = q\<lparr> model := model q, optimizer := optimizer q \<rparr>" by simp
  show ?thesis
  proof (cases "fetch (train_loader q) idxs")
    case (Inl e)
    then have "fst (snd (train_step L idxs (q, g))) = q"
      by (simp add: train_step_def prog_defs)
    with id show ?thesis by metis
  next
    case (Inr b)
    obtain row col val where b: "b = (row, col, val)" by (cases b)
    obtain r g1 where f: "forward L (model q) row col g = (r, g1)"
      by (cases "forward L (model q) row col g")
    show ?thesis
    proof (cases r)
      case (Inl e)
      then have "fst (snd (train_step L idxs (q, g))) = q"
        by (simp add: train_step_def prog_defs Inr b f)
      with id show ?thesis by metis
    next
      case r: (Inr preds)
      obtain opt \<theta> where
        o: "optimizer_step L (optimizer q) (model q) (row, col, val) g = (opt, \<theta>)"
        by (cases "optimizer_step L (optimizer q) (model q) (row, col, val) g")
      have "fst (snd (train_step L idxs (q, g)))
          = q\<lparr> model := set_parameters (model q) \<theta>, optimizer := opt \<rparr>"
        by (simp add: train_step_def prog_defs Inr b f r o)
      then show ?thesis by blast
    qed
  qed
qed

lemma train_batches_frame:
  "\<exists>m opt. fst (snd (train_batches L bs acc (q, g))) = q\<lparr> model := m, optimizer := opt \<rparr>"
proof (induction bs arbitrary: acc q g)
  case Nil
  have id: "q = q\<lparr> model := model q, optimizer := optimizer q \<rparr>" by simp
  have "fst (snd (train_batches L [] acc (q, g))) = q" by (simp add: ret_def)
  with id show ?case by metis
next
  case (Cons b bs)
  obtain r q1 g1 where s: "train_step L b (q, g) = (r, (q1, g1))"
    by (cases "train_step L b (q, g)") auto
  obtain m1 o1 where q1: "q1 = q\<lparr> model := m1, optimizer := o1 \<rparr>"
    using train_step_frame [of L b q g] by (auto simp: s)
  show ?case
  proof (cases r)
    case (Inl e)
    then show ?thesis using q1 by (simp add: bindP_def s) blast
  next
    case (Inr l)
    obtain m2 o2 where
      "fst (snd (train_batches L bs (acc + l) (q1, g1))) = q1\<lparr> model := m2, optimizer := o2 \<rparr>"
      using Cons.IH [of "acc + l" q1 g1] by blast
    then have "fst (snd (train_batches L (b # bs) acc (q, g))) = q\<lparr> model := m2, optimizer := o2 \<rparr>"
      by (simp add: bindP_def s Inr q1)
    then show ?thesis by blast
  qed
qed

lemma fit_epoch_frame:
  "\<exists>m opt. fst (snd (fit_epoch L (q, g))) = q\<lparr> model := m, optimizer := opt \<rparr>"
proof -
  let ?q = "q\<lparr> model := (model q)\<lparr> training := True \<rparr> \<rparr>"
  obtain bs g1 where b: "batches_of L (train_loader q) g = (Inr bs, g1)"
    by (cases "batches_of L (train_loader q) g")
      (auto simp: batches_of_def draw_def split: prod.splits)
  obtain r q2 g2 where t: "train_batches L bs 0 (?q, g1) = (r, (q2, g2))"
    by (cases "train_batches L bs 0 (?q, g1)") auto
  obtain m opt where "q2 = ?q\<lparr> model := m, optimizer := opt \<rparr>"
    using train_batches_frame [of L bs 0 ?q g1] by (auto simp: t)
  then have q2: "q2 = q\<lparr> model := m, optimizer := opt \<rparr>" by simp
  have "fst (snd (fit_epoch L (q, g))) = q2"
    by (cases r) (simp_all add: fit_epoch_def prog_defs b t)
  with q2 show ?thesis by blast
qed

lemma entries_dd_touch [simp]: "entries (dd_touch d k) k' = entries d k'"
  by (simp add: entries_def dd_touch_def split: option.splits)

lemma entries_dd_append [simp]:
  "entries (dd_append d k v) k' = (if k' = k then entries d k @ [v] else entries d k')"
  by (simp add: entries_def dd_append_def split: option.splits)

lemma fit_body_completed:
  assumes "fit_body L e (q, g) = (Inr u, (q', g'))"
  shows "\<exists>l l'. losses q' =
           dd_append (dd_append (dd_touch (dd_append (dd_touch (losses q) ''train'')
             ''train'' (Loss l)) ''test'') ''test'' (Loss l')) ''epoch'' (Epoch e)"
    and "n_epochs q' = n_epochs q"
    and "test_interactions q' = test_interactions q"
    and "test_interactions q \<noteq> None"
proof -
  define q1 where "q1 = q\<lparr> losses := dd_touch (losses q) ''train'' \<rparr>"
  obtain r2 q2 g2 where f: "fit_epoch L (q1, g) = (r2, (q2, g2))"
    by (cases "fit_epoch L (q1, g)") auto
  obtain m opt where q2: "q2 = q1\<lparr> model := m, optimizer := opt \<rparr>"
    using fit_epoch_frame [of L q1 g] by (auto simp: f)
  have t1: "test_interactions q1 = test_interactions q" by (simp add: q1_def)
  have body: "fit_body L e (q, g) =
      (case r2 of Inl err \<Rightarrow> (Inl err, (q2, g2))
       | Inr l \<Rightarrow>
           (case test_interactions q of
              None \<Rightarrow> (Inl AttributeError, (q2\<lparr> losses := dd_append (losses q2) ''train'' (Loss l) \<rparr>, g2))
            | Some ti \<Rightarrow>
                (case validation_loss L
                        (q2\<lparr> losses := dd_touch (dd_append (losses q2) ''train'' (Loss l)) ''test'' \<rparr>, g2) of
                   (Inl err, s) \<Rightarrow> (Inl err, s)
                 | (Inr l', (q5, g5)) \<Rightarrow>
                     (Inr (),
                      (q5\<lparr> losses := dd_append (dd_append (losses q5) ''test'' (Loss l'))
                                          ''epoch'' (Epoch e) \<rparr>, g5)))))"
    by (auto simp: fit_body_def prog_defs q1_def [symmetric] f q2 t1
        split: sum.splits option.splits prod.splits)
  from assms body obtain l where r2: "r2 = Inr l"
    by (cases r2) auto
  from assms body r2 obtain ti where ti: "test_interactions q = Some ti"
    by (cases "test_interactions q") auto
  let ?q4 = "q2\<lparr> losses := dd_touch (dd_append (losses q2) ''train'' (Loss l)) ''test'' \<rparr>"
  obtain r5 q5 g5 where v: "validation_loss L (?q4, g2) = (r5, (q5, g5))"
    by (cases "validation_loss L (?q4, g2)") auto
  have q5: "q5 = ?q4\<lparr> model := (model ?q4)\<lparr> training := False \<rparr> \<rparr>"
    using validation_loss_frame [of L ?q4 g2] by (simp add: v)
  from assms body r2 ti v obtain l' where r5: "r5 = Inr l'"
    by (cases r5) auto
  have q': "q' = q5\<lparr> losses := dd_append (dd_append (losses q5) ''test'' (Loss l'))
                                          ''epoch'' (Epoch e) \<rparr>"
    using assms body by (simp add: r2 ti v r5)
  show "\<exists>l l'. losses q' =
           dd_append (dd_append (dd_touch (dd_append (dd_touch (losses q) ''train'')
             ''train'' (Loss l)) ''test'') ''test'' (Loss l')) ''epoch'' (Epoch e)"
    by (rule exI [of _ l], rule exI [of _ l']) (simp add: q' q5 q2 q1_def)
  show "n_epochs q' = n_epochs q" by (simp add: q' q5 q2 q1_def)
  show "test_interactions q' = test_interactions q" by (simp add: q' q5 q2 q1_def)
  show "test_interactions q \<noteq> None" by (simp add: ti)
qed

lemma for_each_fit_body:
  assumes "for_each es (fit_body L) (q, g) = (Inr u, (q', g'))"
    and "k = ''epoch'' \<or> k = ''train'' \<or> k = ''test''"
  shows "n_epochs q' = n_epochs q \<and>
         (\<exists>new. entries (losses q') k = entries (losses q) k @ new \<and> length new = length es)"
  using assms(1)
proof (induction es arbitrary: q g)
  case Nil
  then show ?case by (simp add: ret_def)
next
  case (Cons e es)
  obtain r q1 g1 where b: "fit_body L e (q, g) = (r, (q1, g1))"
    by (cases "fit_body L e (q, g)") auto
  with Cons.prems obtain v where r: "r = Inr v"
    by (cases r) (auto simp: bindP_def)
  have rest: "for_each es (fit_body L) (q1, g1) = (Inr u, (q', g'))"
    using Cons.prems by (simp add: bindP_def b r)
  obtain l l' where l: "losses q1 =
           dd_append (dd_append (dd_touch (dd_append (dd_touch (losses q) ''train'')
             ''train'' (Loss l)) ''test'') ''test'' (Loss l')) ''epoch'' (Epoch e)"
    using fit_body_completed(1) [OF b [unfolded r]] by blast
  have n1: "n_epochs q1 = n_epochs q"
    using fit_body_completed(2) [OF b [unfolded r]] .
  have "\<exists>x. entries (losses q1) k = entries (losses q) k @ [x]"
    using assms(2) by (auto simp: l)
  then obtain x where x: "entries (losses q1) k = entries (losses q) k @ [x]" ..
  obtain new where "n_epochs q' = n_epochs q1"
      "entries (losses q') k = entries (losses q1) k @ new" "length new = length es"
    using Cons.IH [OF rest] by blast
  then have "n_epochs q' = n_epochs q \<and>
      entries (losses q') k = entries (losses q) k @ (x # new) \<and>
      length (x # new) = length (e # es)"
    by (simp add: n1 x)
  then show ?case by blast
qed

lemma fit_completed:
  assumes "fit L (q, g) = (Inr u, (q', g'))"
    and "k = ''epoch'' \<or> k = ''train'' \<or> k = ''test''"
  shows "n_epochs q' = n_epochs q \<and>
         (\<exists>new. entries (losses q') k = entries (losses q) k @ new \<and> length new = n_epochs q)"
proof -
  have "for_each [0..<n_epochs q] (fit_body L) (q, g) = (Inr u, (q', g'))"
    using assms(1) by (simp add: fit_def prog_defs)
  from for_each_fit_body [OF this assms(2)] show ?thesis by simp
qed

lemma fit_times_completed:
  assumes "fit_times L n (q, g) = (Inr u, (q', g'))"
    and "k = ''epoch'' \<or> k = ''train'' \<or> k = ''test''"
  shows "n_epochs q' = n_epochs q \<and>
         length (entries (losses q') k) = length (entries (losses q) k) + n * n_epochs q"
  using assms(1)
proof (induction n arbitrary: q g)
  case 0
  then show ?case by (simp add: ret_def)
next
  case (Suc n)
  obtain r q1 g1 where f: "fit L (q, g) = (r, (q1, g1))"
    by (cases "fit L (q, g)") auto
  with Suc.prems obtain v where r: "r = Inr v"
    by (cases r) (auto simp: bindP_def)
  have rest: "fit_times L n (q1, g1) = (Inr u, (q', g'))"
    using Suc.prems by (simp add: bindP_def f r)
  obtain new where n1: "n_epochs q1 = n_epochs q"
    and e1: "entries (losses q1) k = entries (losses q) k @ new" "length new = n_epochs q"
    using fit_completed [OF f [unfolded r] assms(2)] by blast
  from Suc.IH [OF rest] show ?case by (simp add: n1 e1)
qed

lemma BasePipeline_init_completed:
  assumes "BasePipeline_init L trn tst cls nf bs p rate wd ne vb seed g = (Inr q, g')"
  shows "losses q = Map.empty" and "n_epochs q = ne"
    and "tst \<noteq> None" and "test_interactions q \<noteq> None" and "cls = BaseModule_class"
    and "\<exists>g1. BaseModule_init L (fst (shape trn)) (snd (shape trn)) nf p g = (Inr (model q), g1) \<and>
              g' = (case seed of None \<Rightarrow> g1 | Some s \<Rightarrow> manual_seed L s)"
proof -
  from assms obtain t where t: "tst = Some t"
    by (cases tst) (auto simp: BasePipeline_init_def Interactions_init_None prog_defs)
  from assms t have c: "cls = BaseModule_class"
    by (cases cls) (auto simp: BasePipeline_init_def Interactions_init_Some prog_defs)
  obtain r g1 where m: "BaseModule_init L (fst (shape trn)) (snd (shape trn)) nf p g = (r, g1)"
    by (cases "BaseModule_init L (fst (shape trn)) (snd (shape trn)) nf p g")
  from assms t c m obtain md where r: "r = Inr md"
    by (cases r) (auto simp: BasePipeline_init_def Interactions_init_Some prog_defs)
  have q: "losses q = Map.empty \<and> n_epochs q = ne \<and> test_interactions q \<noteq> None \<and>
      model q = md \<and> g' = (case seed of None \<Rightarrow> g1 | Some s \<Rightarrow> manual_seed L s)"
    using assms
    by (cases seed)
      (auto simp: BasePipeline_init_def Interactions_init_Some prog_defs t c m r)
  show "losses q = Map.empty" "n_epochs q = ne" "test_interactions q \<noteq> None" using q by simp_all
  show "tst \<noteq> None" by (simp add: t)
  show "cls = BaseModule_class" by (rule c)
  show "\<exists>g1. BaseModule_init L (fst (shape trn)) (snd (shape trn)) nf p g = (Inr (model q), g1) \<and>
              g' = (case seed of None \<Rightarrow> g1 | Some s \<Rightarrow> manual_seed L s)"
    using q m r by simp
qed

text \<open>
  C10: a pipeline constructed with a test split starts with the three histories
  \<open>epoch\<close>, \<open>train\<close> and \<open>test\<close> empty; every call of \<open>fit\<close> that completes appends
  exactly \<open>n_epochs\<close> entries to each of the three and keeps what was there; so after
  \<open>n\<close> completed calls in a row each of the three has \<open>n * n_epochs\<close> entries.
\<close>

theorem loss_histories_stay_aligned:
  "(BasePipeline_init L trn (Some tst) cls nf bs p rate wd ne vb seed g0 = (Inr q0, g1) \<longrightarrow>
      entries (losses q0) ''epoch'' = [] \<and> entries (losses q0) ''train'' = [] \<and>
      entries (losses q0) ''test'' = [] \<and> n_epochs q0 = ne) \<and>
   (fit L (q, g) = (Inr (), (q', g')) \<longrightarrow>
      n_epochs q' = n_epochs q \<and>
      (\<exists>new. entries (losses q') ''epoch'' = entries (losses q) ''epoch'' @ new \<and>
             length new = n_epochs q) \<and>
      (\<exists>new. entries (losses q') ''train'' = entries (losses q) ''train'' @ new \<and>
             length new = n_epochs q) \<and>
      (\<exists>new. entries (losses q') ''test'' = entries (losses q) ''test'' @ new \<and>
             length new = n_epochs q)) \<and>
   (BasePipeline_init L trn (Some tst) cls nf bs p rate wd ne vb seed g0 = (Inr q0, g1) \<and>
    fit_times L n (q0, g1) = (Inr (), (qn, gn)) \<longrightarrow>
      length (entries (losses qn) ''epoch'') = n * ne \<and>
      length (entries (losses qn) ''train'') = n * ne \<and>
      length (entries (losses qn) ''test'') = n * ne)"
proof (intro conjI impI)
  assume i: "BasePipeline_init L trn (Some tst) cls nf bs p rate wd ne vb seed g0 = (Inr q0, g1)"
  show "entries (losses q0) ''epoch'' = []" "entries (losses q0) ''train'' = []"
    "entries (losses q0) ''test'' = []"
    by (simp_all add: BasePipeline_init_completed(1) [OF i] entries_def)
  show "n_epochs q0 = ne" by (rule BasePipeline_init_completed(2) [OF i])
next
  assume f: "fit L (q, g) = (Inr (), (q', g'))"
  show "n_epochs q' = n_epochs q" using fit_completed [OF f, of "''epoch''"] by simp
  show "\<exists>new. entries (losses q') ''epoch'' = entries (losses q) ''epoch'' @ new \<and>
             length new = n_epochs q"
    using fit_completed [OF f, of "''epoch''"] by simp
  show "\<exists>new. entries (losses q') ''train'' = entries (losses q) ''train'' @ new \<and>
             length new = n_epochs q"
    using fit_completed [OF f, of "''train''"] by simp
  show "\<exists>new. entries (losses q') ''test'' = entries (losses q) ''test'' @ new \<and>
             length new = n_epochs q"
    using fit_completed [OF f, of "''test''"] by simp
next
  assume a: "BasePipeline_init L trn (Some tst) cls nf bs p rate wd ne vb seed g0 = (Inr q0, g1) \<and>
    fit_times L n (q0, g1) = (Inr (), (qn, gn))"
  then have i: "BasePipeline_init L trn (Some tst) cls nf bs p rate wd ne vb seed g0 = (Inr q0, g1)"
    and t: "fit_times L n (q0, g1) = (Inr (), (qn, gn))" by simp_all
  have e: "entries (losses q0) k = []" for k
    by (simp add: BasePipeline_init_completed(1) [OF i] entries_def)
  have ne: "n_epochs q0 = ne" by (rule BasePipeline_init_completed(2) [OF i])
  show "length (entries (losses qn) ''epoch'') = n * ne"
    using fit_times_completed [OF t, of "''epoch''"] by (simp add: e ne)
  show "length (entries (losses qn) ''train'') = n * ne"
    using fit_times_completed [OF t, of "''train''"] by (simp add: e ne)
  show "length (entries (losses qn) ''test'') = n * ne"
    using fit_times_completed [OF t, of "''test''"] by (simp add: e ne)
qed

lemmas run_defs =
  BasePipeline_init_def BaseModule_init_def Interactions_init_Some
  fit_def fit_body_def fit_epoch_def validation_loss_def train_step_def validation_step_def
  batches_of_def fetch_def getitem_def tensor_index_def len_def nnz_def
  forward_def embedding_def tensor_op_def tensor_op2_def sum1_def dropout_def
  parameters_def set_parameters_def dd_touch_def dd_append_def entries_def
  toy_torch_def example_train_def example_test_def prog_defs

theorem loss_histories_stay_aligned_witness:
  "is_ok (fst example_init) \<and>
   fst (fit toy_torch (projr (fst example_init), snd example_init)) = Inr () \<and>
   length (entries (losses (fst (snd (fit toy_torch
      (projr (fst example_init), snd example_init))))) ''epoch'') = 1 \<and>
   length (entries (losses (fst (snd (fit toy_torch
      (projr (fst example_init), snd example_init))))) ''train'') = 1 \<and>
   length (entries (losses (fst (snd (fit toy_torch
      (projr (fst example_init), snd example_init))))) ''test'') = 1 \<and>
   fst (fit_times toy_torch 2 (projr (fst example_init), snd example_init)) = Inr () \<and>
   length (entries (losses (fst (snd (fit_times toy_torch 2
      (projr (fst example_init), snd example_init))))) ''epoch'') = 2 \<and>
   length (entries (losses (fst (snd (fit_times toy_torch 2
      (projr (fst example_init), snd example_init))))) ''train'') = 2 \<and>
   length (entries (losses (fst (snd (fit_times toy_torch 2
      (projr (fst example_init), snd example_init))))) ''test'') = 2"
proof -
  let ?q0 = "projr (fst example_init)"
  let ?g1 = "snd example_init"
  let ?f = "fit toy_torch (?q0, ?g1)"
  let ?r = "fit_times toy_torch 2 (?q0, ?g1)"
  have ok: "is_ok (fst example_init)"
    by (simp add: example_init_def is_ok_def run_defs eval_nat_numeral)
  then obtain x where x: "fst example_init = Inr x"
    by (cases "fst example_init") (simp_all add: is_ok_def)
  have "example_init = (Inr ?q0, ?g1)"
    by (simp add: x prod_eq_iff)
  then have i: "BasePipeline_init toy_torch example_train (Some example_test) BaseModule_class
       2 32 0 (1 / 100) 0 1 False (Some 7) 0 = (Inr ?q0, ?g1)"
    by (simp add: example_init_def)
  have one: "fst ?f = Inr ()"
    by (simp add: example_init_def run_defs eval_nat_numeral)
  then have f: "?f = (Inr (), (fst (snd ?f), snd (snd ?f)))"
    by (metis prod.collapse)
  have fin: "fst ?r = Inr ()"
    by (simp add: example_init_def run_defs eval_nat_numeral)
  then have t: "?r = (Inr (), (fst (snd ?r), snd (snd ?r)))"
    by (metis prod.collapse)
  note inst = loss_histories_stay_aligned
    [where L = toy_torch and trn = example_train and tst = example_test
       and cls = BaseModule_class and nf = 2 and bs = 32 and p = 0 and rate = "1 / 100"
       and wd = 0 and ne = 1 and vb = False and seed = "Some 7" and ?g0.0 = 0
       and ?q0.0 = ?q0 and ?g1.0 = ?g1 and n = 2
       and qn = "fst (snd ?r)" and gn = "snd (snd ?r)"
       and q = ?q0 and g = ?g1 and q' = "fst (snd ?f)" and g' = "snd (snd ?f)"]
  have a: "entries (losses ?q0) ''epoch'' = []" "entries (losses ?q0) ''train'' = []"
    "entries (losses ?q0) ''test'' = []" "n_epochs ?q0 = 1"
    using inst i by simp_all
  have b: "length (entries (losses (fst (snd ?f))) ''epoch'') = 1"
    "length (entries (losses (fst (snd ?f))) ''train'') = 1"
    "length (entries (losses (fst (snd ?f))) ''test'') = 1"
    using inst f a by auto
  have c: "length (entries (losses (fst (snd ?r))) ''epoch'') = 2"
    "length (entries (losses (fst (snd ?r))) ''train'') = 2"
    "length (entries (losses (fst (snd ?r))) ''test'') = 2"
    using inst i t by simp_all
  show ?thesis using ok one fin b c by simp
qed

lemma construct_and_fit_None:
  "fst (construct_and_fit L trn None cls nf bs p rate wd ne vb seed g) = Inl AttributeError"
  by (simp add: construct_and_fit_def BasePipeline_init_def Interactions_init_None prog_defs)

lemma fit_without_test_interactions:
  assumes "test_interactions q = None" and "0 < n_epochs q"
  shows "fst (fit L (q, g)) \<noteq> Inr ()"
proof
  assume "fst (fit L (q, g)) = Inr ()"
  then obtain q' g' where f: "fit L (q, g) = (Inr (), (q', g'))"
    by (cases "fit L (q, g)") auto
  then have "for_each [0..<n_epochs q] (fit_body L) (q, g) = (Inr (), (q', g'))"
    by (simp add: fit_def prog_defs)
  moreover obtain es where "[0..<n_epochs q] = 0 # es"
    using assms(2) by (auto simp: upt_conv_Cons)
  ultimately have c: "bindP (fit_body L 0) (\<lambda>_. for_each es (fit_body L)) (q, g) = (Inr (), (q', g'))"
    by simp
  obtain r q1 g1 where b: "fit_body L 0 (q, g) = (r, (q1, g1))"
    by (cases "fit_body L 0 (q, g)") auto
  with c obtain v where "r = Inr v" by (cases r) (auto simp: bindP_def)
  with b fit_body_completed(4) [of L 0 q g v q1 g1] assms(1) show False by simp
qed

text \<open>
  C2: with no test data, constructing the pipeline and fitting it does not complete:
  it raises \<open>AttributeError\<close>, in the construction already. (By
  \<open>fit_without_test_interactions\<close> a pipeline whose attribute \<open>test_interactions\<close> was
  never assigned could not complete a \<open>fit\<close> of one epoch or more either.)
\<close>

theorem fit_without_test_data_raises:
  "fst (construct_and_fit L trn None cls nf bs p rate wd ne vb seed g) = Inl AttributeError"
  by (rule construct_and_fit_None)

text \<open>
  C9: two constructions with the same seed 7, the same data and the same settings,
  each followed by \<open>fit\<close>, started in the generator states 0 and 1: the train losses
  are 35793 and 53977. By \<open>BasePipeline_init_completed\<close> the parameters are drawn from
  the generator as it is before the construction, and the seed sets the generator only
  afterwards.
\<close>

theorem seeded_runs_differ:
  "map_sum id (\<lambda>q. entries (losses q) ''train'')
     (fst (construct_and_fit toy_torch example_train (Some example_test) BaseModule_class
        2 32 0 (1 / 100) 0 1 False (Some 7) 0)) = Inr [Loss 35793] \<and>
   map_sum id (\<lambda>q. entries (losses q) ''train'')
     (fst (construct_and_fit toy_torch example_train (Some example_test) BaseModule_class
        2 32 0 (1 / 100) 0 1 False (Some 7) 1)) = Inr [Loss 53977] \<and>
   [Loss 35793] \<noteq> [Loss 53977]"
  by (simp add: construct_and_fit_def run_defs eval_nat_numeral)

lemma validation_loss_example:
  "fst (validation_loss toy_torch (projr (fst example_init), snd example_init)) = Inr 49025"
  by (simp add: example_init_def run_defs eval_nat_numeral)

end
